theory Spec2Isabelle
  imports Main "HOL-Library.Sublist"
begin

section \<open>Python values, exceptions and string operations\<close>

text \<open>
  The citation generator is a Python program (\<^verbatim>\<open>f_app.py\<close>).  A call of a Python
  function either returns a value or raises; the model makes the exception a value:
  \<open>Inl e\<close> is "raised \<open>e\<close>", \<open>Inr v\<close> is "returned \<open>v\<close>".  A string is a list of
  characters, and a character is one of the code points 0 to 255; the character classes
  below (the whitespace of \<^verbatim>\<open>str.split\<close> and \<^verbatim>\<open>str.strip\<close>, the regular expressions'
  \<^verbatim>\<open>\d\<close> and \<^verbatim>\<open>\w\<close>) are Python's on these code points.
\<close>

datatype py_error =
  IndexError | KeyError | AttributeError | TypeError | ValueError
  | RequestException | DecodeError

type_synonym 'a res = "py_error + 'a"

definition bind_res :: "'a res \<Rightarrow> ('a \<Rightarrow> 'b res) \<Rightarrow> 'b res" where
  "bind_res r f = (case r of Inl e \<Rightarrow> Inl e | Inr v \<Rightarrow> f v)"

text \<open>A list comprehension whose body may raise: the first exception ends it.\<close>

fun map_res :: "('a \<Rightarrow> 'b res) \<Rightarrow> 'a list \<Rightarrow> 'b list res" where
  "map_res f [] = Inr []"
| "map_res f (x # xs) =
     bind_res (f x) (\<lambda>y. bind_res (map_res f xs) (\<lambda>ys. Inr (y # ys)))"

text \<open>
  \<^verbatim>\<open>str.isspace\<close>: tab, LF, VT, FF, CR, the separators 0x1C..0x1F, the space, the next
  line control 0x85 and the no-break space 0xA0.
\<close>

definition is_space :: "char \<Rightarrow> bool" where
  "is_space c = (c \<in> set [CHR 0x09, CHR 0x0A, CHR 0x0B, CHR 0x0C, CHR 0x0D,
                           CHR 0x1C, CHR 0x1D, CHR 0x1E, CHR 0x1F, CHR 0x20,
                           CHR 0x85, CHR 0xA0])"

text \<open>
  \<^verbatim>\<open>a.split()\<close> with no argument: the maximal runs of non-whitespace characters, in
  order.  \<open>split_from cur s\<close> scans \<open>s\<close> with the token read so far in \<open>cur\<close>.
\<close>

fun split_from :: "string \<Rightarrow> string \<Rightarrow> string list" where
  "split_from cur [] = (if cur = [] then [] else [cur])"
| "split_from cur (c # cs) =
     (if is_space c
      then (if cur = [] then split_from [] cs else cur # split_from [] cs)
      else split_from (cur @ [c]) cs)"

definition str_split :: "string \<Rightarrow> string list" where
  "str_split a = split_from [] a"

text \<open>\<^verbatim>\<open>sep.join(xs)\<close>.\<close>

fun str_join :: "string \<Rightarrow> string list \<Rightarrow> string" where
  "str_join sep [] = []"
| "str_join sep [x] = x"
| "str_join sep (x # y # ys) = x @ sep @ str_join sep (y # ys)"

text \<open>\<^verbatim>\<open>n[0]\<close> on a string and \<^verbatim>\<open>xs[-1]\<close> on a list: IndexError when empty.\<close>

definition first_char :: "string \<Rightarrow> string res" where
  "first_char n = (case n of [] \<Rightarrow> Inl IndexError | c # _ \<Rightarrow> Inr [c])"

definition last_item :: "'a list \<Rightarrow> 'a res" where
  "last_item xs = (if xs = [] then Inl IndexError else Inr (last xs))"

section \<open>The metadata record\<close>

text \<open>
  Every extractor builds a dict with string keys; the formatters read it with
  \<^verbatim>\<open>metadata.get(key)\<close>.  A field is \<open>None\<close> when the dict has no such key, \<open>Some s\<close>
  when it holds the text \<open>s\<close>.  Two places can put Python's \<^verbatim>\<open>None\<close> into the dict:
  the generic extractor stores \<^verbatim>\<open>soup.title.string\<close> as the title, which
  \<^verbatim>\<open>get('title')\<close> cannot tell from a missing key (the field is \<open>None\<close>); and the
  arXiv extractor stores the text of each author's name element, which is
  \<^verbatim>\<open>None\<close> for an element without text, so an entry of the author list is
  \<open>Some name\<close> or \<open>None\<close>.
\<close>

record metadata =
  title :: "string option"
  authors :: "string option list option"
  year :: "string option"
  month :: "string option"
  journal :: "string option"
  volume :: "string option"
  issue :: "string option"
  doi :: "string option"
  url :: "string option"
  publisher :: "string option"

text \<open>\<^verbatim>\<open>not metadata\<close> on a dict: true for the dict with no key.\<close>

definition no_keys :: "metadata \<Rightarrow> bool" where
  "no_keys m = (m = \<lparr>title = None, authors = None, year = None, month = None,
                      journal = None, volume = None, issue = None, doi = None,
                      url = None, publisher = None\<rparr>)"

text \<open>
  Truth value of \<^verbatim>\<open>metadata.get(key)\<close>; \<^verbatim>\<open>metadata.get(key, default)\<close>; and
  \<^verbatim>\<open>metadata[key]\<close>, which the formatters evaluate only under the guard
  \<^verbatim>\<open>metadata.get(key)\<close>, where the key is present.
\<close>

definition truthy :: "string option \<Rightarrow> bool" where
  "truthy v = (case v of None \<Rightarrow> False | Some s \<Rightarrow> s \<noteq> [])"

definition get_or :: "'a option \<Rightarrow> 'a \<Rightarrow> 'a" where
  "get_or v d = (case v of None \<Rightarrow> d | Some x \<Rightarrow> x)"

definition item :: "string option \<Rightarrow> string" where
  "item v = (case v of None \<Rightarrow> [] | Some s \<Rightarrow> s)"

text \<open>
  An author in an f-string, \<^verbatim>\<open>f"{a}"\<close>: the text itself, or \<^verbatim>\<open>None\<close> printed.  Where the
  code needs a \<^verbatim>\<open>str\<close> (an item of \<^verbatim>\<open>join\<close>, an operand of \<^verbatim>\<open>+\<close>), \<^verbatim>\<open>None\<close> raises
  TypeError.
\<close>

definition py_format :: "string option \<Rightarrow> string" where
  "py_format a = (case a of None \<Rightarrow> ''None'' | Some s \<Rightarrow> s)"

definition need_str :: "string option \<Rightarrow> string res" where
  "need_str a = (case a of None \<Rightarrow> Inl TypeError | Some s \<Rightarrow> Inr s)"

section \<open>The citation formatters\<close>

definition unable :: string where
  "unable = ''Unable to generate citation.''"

subsection \<open>APA\<close>

text \<open>
  The rendering of one author, the f-string
  \<^verbatim>\<open>f"{a.split()[-1]}, {'. '.join(n[0] for n in a.split()[:-1])}."\<close>,
  which the code writes out in the branch for several authors and again in the branch
  for one.  \<^verbatim>\<open>None\<close> has no \<^verbatim>\<open>split\<close>: AttributeError.
\<close>

definition apa_author :: "string option \<Rightarrow> string res" where
  "apa_author a =
     (case a of
        None \<Rightarrow> Inl AttributeError
      | Some s \<Rightarrow>
          bind_res (last_item (str_split s)) (\<lambda>family.
          bind_res (map_res first_char (butlast (str_split s))) (\<lambda>initials.
            Inr (family @ '', '' @ str_join ''. '' initials @ ''.''))))"

definition apa_author_text :: "string option list \<Rightarrow> string res" where
  "apa_author_text as =
     (if length as > 1 then
        bind_res (map_res apa_author as) (\<lambda>formatted_authors.
          Inr (str_join '', '' (butlast formatted_authors) @ '', & '' @ last formatted_authors))
      else if as \<noteq> [] then apa_author (hd as)
      else Inr [])"

definition format_apa_citation :: "metadata option \<Rightarrow> string res" where
  "format_apa_citation md =
     (case md of
        None \<Rightarrow> Inr unable
      | Some m \<Rightarrow>
          if no_keys m \<or> \<not> truthy (title m) then Inr unable
          else
            bind_res (apa_author_text (get_or (authors m) [])) (\<lambda>author_text.
              let citation = author_text @ '' ('' @ get_or (year m) [];
                  citation = (if truthy (month m) then citation @ '', '' @ item (month m)
                              else citation);
                  citation = citation @ ''). '' @ item (title m);
                  citation =
                    (if truthy (journal m) then
                       (let citation = citation @ ''. '' @ item (journal m) in
                        if truthy (volume m) then
                          (let citation = citation @ '', '' @ item (volume m) in
                           if truthy (issue m)
                           then citation @ ''('' @ item (issue m) @ '')''
                           else citation)
                        else citation)
                     else citation);
                  citation =
                    (if truthy (doi m) then citation @ ''. https://doi.org/'' @ item (doi m)
                     else if truthy (url m) then citation @ ''. '' @ item (url m)
                     else citation)
              in Inr citation))"

subsection \<open>Chicago\<close>

definition chicago_author_text :: "string option list \<Rightarrow> string res" where
  "chicago_author_text as =
     (if length as > 1 then
        bind_res (map_res need_str (butlast as)) (\<lambda>firsts.
        bind_res (need_str (last as)) (\<lambda>final.
          Inr (str_join '', '' firsts @ '', and '' @ final)))
      else if as \<noteq> [] then Inr (py_format (hd as))
      else Inr [])"

definition format_chicago_citation :: "metadata option \<Rightarrow> string res" where
  \<open>format_chicago_citation md =
     (case md of
        None \<Rightarrow> Inr unable
      | Some m \<Rightarrow>
          if no_keys m \<or> \<not> truthy (title m) then Inr unable
          else
            bind_res (chicago_author_text (get_or (authors m) [])) (\<lambda>author_text.
            let citation = author_text @ ''. "'' @ item (title m) @ ''"'';
                citation =
                  (if truthy (journal m) then
                     (let citation = citation @ ''. '' @ item (journal m) in
                      if truthy (volume m) then
                        (let citation = citation @ '' '' @ item (volume m) in
                         if truthy (issue m)
                         then citation @ '', no. '' @ item (issue m)
                         else citation)
                      else citation)
                   else citation);
                citation =
                  (if truthy (month m) \<and> truthy (year m)
                   then citation @ '' '' @ item (month m) @ '' '' @ item (year m) @ ''.''
                   else if truthy (year m) then citation @ '' '' @ item (year m) @ ''.''
                   else citation);
                citation =
                  (if truthy (doi m) then citation @ '' https://doi.org/'' @ item (doi m) @ ''.''
                   else if truthy (url m) then citation @ '' '' @ item (url m) @ ''.''
                   else citation)
            in Inr citation))\<close>

subsection \<open>MLA\<close>

definition mla_author_text :: "string option list \<Rightarrow> string" where
  "mla_author_text as =
     (if as \<noteq> [] then
        (if length as > 1 then py_format (hd as) @ '', et al'' else py_format (hd as))
      else [])"

definition format_mla_citation :: "metadata option \<Rightarrow> string" where
  \<open>format_mla_citation md =
     (case md of
        None \<Rightarrow> unable
      | Some m \<Rightarrow>
          if no_keys m \<or> \<not> truthy (title m) then unable
          else
            let author_text = mla_author_text (get_or (authors m) []);
                citation = author_text @ ''. "'' @ item (title m) @ ''"'';
                citation =
                  (if truthy (journal m) then
                     (let citation = citation @ ''. '' @ item (journal m) in
                      if truthy (volume m) \<and> truthy (issue m)
                      then citation @ '', vol. '' @ item (volume m) @ '', no. '' @ item (issue m)
                      else citation)
                   else citation);
                citation =
                  (if truthy (publisher m) then citation @ '', '' @ item (publisher m)
                   else citation);
                citation =
                  (if truthy (month m) \<and> truthy (year m)
                   then citation @ '', '' @ take 3 (item (month m)) @ ''. '' @ item (year m)
                   else citation);
                citation =
                  (if truthy (doi m)
                   then citation @ ''. Crossref, https://doi.org/'' @ item (doi m)
                   else if truthy (url m) then citation @ ''. '' @ item (url m)
                   else citation)
            in citation @ ''.'')\<close>

section \<open>Regular expressions\<close>

text \<open>
  The two patterns of \<^verbatim>\<open>identify_url_type\<close> are built from literals, character classes,
  the dot, an alternation, greedy repetitions of a class and one group.  \<open>rmatch r s\<close>
  lists the ways \<open>r\<close> matches at the start of \<open>s\<close> in the order in which a
  backtracking matcher tries them (the left alternative first, the longest repetition
  first): each is the texts of the groups, in order, and the rest of \<open>s\<close>.  The head of
  the list is the match Python's \<^verbatim>\<open>re\<close> reports.
\<close>

datatype regex =
    Eps
  | Lit char
  | Dot
  | In "char list"
  | Seq regex regex
  | Alt regex regex
  | Rep nat "char list"
  | Grp regex

fun rmatch :: "regex \<Rightarrow> string \<Rightarrow> (string list \<times> string) list" where
  "rmatch Eps s = [([], s)]"
| "rmatch (Lit c) s = (case s of [] \<Rightarrow> [] | x # xs \<Rightarrow> if x = c then [([], xs)] else [])"
| "rmatch Dot s = (case s of [] \<Rightarrow> [] | x # xs \<Rightarrow> if x \<noteq> CHR 0x0A then [([], xs)] else [])"
| "rmatch (In cs) s = (case s of [] \<Rightarrow> [] | x # xs \<Rightarrow> if x \<in> set cs then [([], xs)] else [])"
| "rmatch (Seq r1 r2) s =
     concat (map (\<lambda>(g1, mid). map (\<lambda>(g2, rest). (g1 @ g2, rest)) (rmatch r2 mid))
                 (rmatch r1 s))"
| "rmatch (Alt r1 r2) s = rmatch r1 s @ rmatch r2 s"
| "rmatch (Rep n cs) s =
     map (\<lambda>j. ([], drop j s)) (rev [n ..< Suc (length (takeWhile (\<lambda>x. x \<in> set cs) s))])"
| "rmatch (Grp r) s =
     map (\<lambda>(g, rest). (take (length s - length rest) s # g, rest)) (rmatch r s)"

text \<open>A sequence of patterns, such as the letters of a literal text.\<close>

fun seq :: "regex list \<Rightarrow> regex" where
  "seq [] = Eps"
| "seq [r] = r"
| "seq (r # rs) = Seq r (seq rs)"

text \<open>
  \<^verbatim>\<open>\d\<close> is the ten decimal digits.  \<^verbatim>\<open>\w\<close> is the letters, the digits and the
  underscore of ASCII, and the alphanumeric characters among the code points 0x80 to
  0xFF: 0xAA, 0xB2, 0xB3, 0xB5, 0xB9, 0xBA, 0xBC to 0xBE, 0xC0 to 0xD6, 0xD8 to 0xF6 and
  0xF8 to 0xFF.
\<close>

definition digits :: "char list" where
  "digits = ''0123456789''"

definition word_chars :: "char list" where
  "word_chars =
     ''abcdefghijklmnopqrstuvwxyzABCDEFGHIJKLMNOPQRSTUVWXYZ0123456789_'' @
     [CHR 0xAA, CHR 0xB2, CHR 0xB3, CHR 0xB5, CHR 0xB9, CHR 0xBA, CHR 0xBC, CHR 0xBD, CHR 0xBE,
      CHR 0xC0, CHR 0xC1, CHR 0xC2, CHR 0xC3, CHR 0xC4, CHR 0xC5, CHR 0xC6, CHR 0xC7,
      CHR 0xC8, CHR 0xC9, CHR 0xCA, CHR 0xCB, CHR 0xCC, CHR 0xCD, CHR 0xCE, CHR 0xCF,
      CHR 0xD0, CHR 0xD1, CHR 0xD2, CHR 0xD3, CHR 0xD4, CHR 0xD5, CHR 0xD6,
      CHR 0xD8, CHR 0xD9, CHR 0xDA, CHR 0xDB, CHR 0xDC, CHR 0xDD, CHR 0xDE, CHR 0xDF,
      CHR 0xE0, CHR 0xE1, CHR 0xE2, CHR 0xE3, CHR 0xE4, CHR 0xE5, CHR 0xE6, CHR 0xE7,
      CHR 0xE8, CHR 0xE9, CHR 0xEA, CHR 0xEB, CHR 0xEC, CHR 0xED, CHR 0xEE, CHR 0xEF,
      CHR 0xF0, CHR 0xF1, CHR 0xF2, CHR 0xF3, CHR 0xF4, CHR 0xF5, CHR 0xF6,
      CHR 0xF8, CHR 0xF9, CHR 0xFA, CHR 0xFB, CHR 0xFC, CHR 0xFD, CHR 0xFE, CHR 0xFF]"

text \<open>
  \<^verbatim>\<open>re.match\<close>: the match at the start of the text, as \<^verbatim>\<open>group(0)\<close> and the groups;
  \<^verbatim>\<open>re.search\<close>: the match at the leftmost position that has one.
\<close>

definition re_match :: "regex \<Rightarrow> string \<Rightarrow> (string \<times> string list) option" where
  "re_match r s =
     (case rmatch r s of
        [] \<Rightarrow> None
      | (gs, rest) # _ \<Rightarrow> Some (take (length s - length rest) s, gs))"

fun re_search :: "regex \<Rightarrow> string \<Rightarrow> (string \<times> string list) option" where
  "re_search r [] = re_match r []"
| "re_search r (c # cs) =
     (case re_match r (c # cs) of Some m \<Rightarrow> Some m | None \<Rightarrow> re_search r cs)"

text \<open>\<^verbatim>\<open>re.fullmatch\<close>: some way of matching reaches the end of the text.\<close>

definition re_fullmatch :: "regex \<Rightarrow> string \<Rightarrow> bool" where
  "re_fullmatch r s = ([] \<in> snd ` set (rmatch r s))"

text \<open>The pattern \<^verbatim>\<open>10\.\d{4,}/[-._;()/:\w]+\<close>.\<close>

definition doi_chars :: "char list" where
  "doi_chars = ''-._;()/:'' @ word_chars"

definition doi_pattern :: regex where
  "doi_pattern =
     seq (map Lit ''10'' @ [Lit (CHR ''.''), Rep 4 digits, Lit (CHR ''/''), Rep 1 doi_chars])"

text \<open>The pattern \<^verbatim>\<open>arxiv.org/(?:abs|pdf)/(\d+\.\d+)\<close>; its dot is not escaped.\<close>

definition arxiv_pattern :: regex where
  "arxiv_pattern =
     seq (map Lit ''arxiv'' @ [Dot] @ map Lit ''org/'' @
          [Alt (seq (map Lit ''abs'')) (seq (map Lit ''pdf'')), Lit (CHR ''/''),
           Grp (seq [Rep 1 digits, Lit (CHR ''.''), Rep 1 digits])])"

section \<open>More string operations\<close>

text \<open>\<^verbatim>\<open>sub in s\<close>.\<close>

fun str_contains :: "string \<Rightarrow> string \<Rightarrow> bool" where
  "str_contains sub [] = (sub = [])"
| "str_contains sub (c # cs) = (prefix sub (c # cs) \<or> str_contains sub cs)"

text \<open>
  \<^verbatim>\<open>s.split(sep)\<close> for a separator that is not empty: the pieces between the occurrences
  of \<open>sep\<close>, found from the left.  \<open>split_sep sep cur s\<close> scans \<open>s\<close> with the piece read
  so far in \<open>cur\<close>.
\<close>

fun split_sep :: "string \<Rightarrow> string \<Rightarrow> string \<Rightarrow> string list" where
  "split_sep sep cur [] = [cur]"
| "split_sep sep cur (c # cs) =
     (if prefix sep (c # cs) then cur # split_sep sep [] (drop (length sep - 1) cs)
      else split_sep sep (cur @ [c]) cs)"

definition str_split_sep :: "string \<Rightarrow> string \<Rightarrow> string list" where
  "str_split_sep sep s = split_sep sep [] s"

text \<open>\<^verbatim>\<open>s.strip()\<close>.\<close>

definition str_strip :: "string \<Rightarrow> string" where
  "str_strip s = rev (dropWhile is_space (rev (dropWhile is_space s)))"

text \<open>\<^verbatim>\<open>xs[0]\<close>.\<close>

definition first_item :: "'a list \<Rightarrow> 'a res" where
  "first_item xs = (case xs of [] \<Rightarrow> Inl IndexError | x # _ \<Rightarrow> Inr x)"

text \<open>\<^verbatim>\<open>str(n)\<close> for an integer, and \<^verbatim>\<open>int(s)\<close> for a text of digits and blanks.\<close>

function str_nat :: "nat \<Rightarrow> string" where
  "str_nat n = (if n < 10 then [digits ! n] else str_nat (n div 10) @ [digits ! (n mod 10)])"
  by pat_completeness auto
termination
  by (relation "measure id") auto

definition str_int :: "int \<Rightarrow> string" where
  "str_int i = (if i < 0 then ''-'' @ str_nat (nat (- i)) else str_nat (nat i))"

definition digit_value :: "char \<Rightarrow> nat" where
  "digit_value c = length (takeWhile (\<lambda>d. d \<noteq> c) digits)"

definition int_of_text :: "string \<Rightarrow> nat" where
  "int_of_text s = foldl (\<lambda>n c. 10 * n + digit_value c) 0 (filter (\<lambda>c. c \<in> set digits) s)"

section \<open>Dates\<close>

text \<open>
  \<^verbatim>\<open>datetime.strptime(s, '%Y-%m-%d')\<close> of the standard library: the text must match
  \<^verbatim>\<open>(\d\d\d\d)-(1[0-2]|0[1-9]|[1-9])-(3[0-1]|[1-2]\d|0[1-9]|[1-9]| [1-9])\<close> from its
  start and to its end, and name a day of the calendar; otherwise ValueError.
  \<^verbatim>\<open>strftime('%B')\<close> is the English name of the month.
\<close>

definition ymd_pattern :: regex where
  "ymd_pattern =
     seq [Grp (seq [In digits, In digits, In digits, In digits]),
          Lit (CHR ''-''),
          Grp (Alt (seq [Lit (CHR ''1''), In ''012''])
              (Alt (seq [Lit (CHR ''0''), In ''123456789'']) (In ''123456789''))),
          Lit (CHR ''-''),
          Grp (Alt (seq [Lit (CHR ''3''), In ''01''])
              (Alt (seq [In ''12'', In digits])
              (Alt (seq [Lit (CHR ''0''), In ''123456789''])
              (Alt (In ''123456789'') (seq [Lit (CHR '' ''), In ''123456789''])))))]"

definition days_in_month :: "nat \<Rightarrow> nat \<Rightarrow> nat" where
  "days_in_month y m =
     (if m = 2 then (if y mod 4 = 0 \<and> (y mod 100 \<noteq> 0 \<or> y mod 400 = 0) then 29 else 28)
      else if m \<in> {4, 6, 9, 11} then 30 else 31)"

definition strptime_ymd :: "string \<Rightarrow> (nat \<times> nat \<times> nat) res" where
  "strptime_ymd s =
     (case re_match ymd_pattern s of
        None \<Rightarrow> Inl ValueError
      | Some (found, gs) \<Rightarrow>
          if length s \<noteq> length found then Inl ValueError
          else (case gs of
                  [y, m, d] \<Rightarrow>
                    if int_of_text y < 1 \<or> days_in_month (int_of_text y) (int_of_text m) < int_of_text d
                    then Inl ValueError
                    else Inr (int_of_text y, int_of_text m, int_of_text d)
                | _ \<Rightarrow> Inl ValueError))"

definition month_names :: "string list" where
  "month_names = [''January'', ''February'', ''March'', ''April'', ''May'', ''June'', ''July'',
                  ''August'', ''September'', ''October'', ''November'', ''December'']"

text \<open>The name of month \<open>m\<close>, for \<open>m\<close> from 1 to 12.\<close>

definition month_name :: "nat \<Rightarrow> string" where
  "month_name m = month_names ! (m - 1)"

section \<open>The outside world\<close>

text \<open>
  The extractors read three services.  What a request returns is not this program's to
  decide, so the model takes it as a parameter, after the library has parsed it; a
  request or a parse that fails raises.

  \<^item> The registry's answer \<^verbatim>\<open>response.json()\<close> is a JSON object that may have the key
    \<^verbatim>\<open>message\<close>; the message is typed along the registry's schema, each key optional:
    lists of texts, author objects with optional \<^verbatim>\<open>given\<close> and \<^verbatim>\<open>family\<close>, a date object
    with optional \<^verbatim>\<open>date-parts\<close> (rows of integers or nulls).
  \<^item> The arXiv feed is the element tree of \<^verbatim>\<open>ET.fromstring\<close>: a tag with its namespace,
    the text (\<open>None\<close> when the element has none) and the children.
  \<^item> A page is what \<^verbatim>\<open>BeautifulSoup\<close> finds in it: its \<^verbatim>\<open>meta\<close> tags in document
    order, each with its attributes, and \<^verbatim>\<open>soup.title\<close> (\<open>None\<close> without a title
    element; else \<^verbatim>\<open>soup.title.string\<close>, which may be \<^verbatim>\<open>None\<close>).
\<close>

record author_entry =
  given :: "string option"
  family :: "string option"

record date_obj =
  date_parts :: "int option list list option"

record work =
  msg_title :: "string list option"
  msg_author :: "author_entry list option"
  published_print :: "date_obj option"
  container_title :: "string list option"
  msg_volume :: "string option"
  msg_issue :: "string option"
  msg_publisher :: "string option"

record json_body =
  message :: "work option"

datatype xml = Element (xml_tag: string) (xml_text: "string option") (xml_children: "xml list")

record soup =
  metas :: "(string \<times> string) list list"
  soup_title :: "string option option"

text \<open>
  \<open>now w k\<close> is the year and the month (1 to 12) that the \<open>k\<close>-th call of
  \<^verbatim>\<open>datetime.now()\<close> reads.  \<open>fromisoformat w s\<close> is the year and the month of
  \<^verbatim>\<open>datetime.fromisoformat(s)\<close>, whose accepted formats depend on the Python version.
\<close>

record world =
  get_json :: "string \<Rightarrow> json_body res"
  get_xml :: "string \<Rightarrow> xml res"
  get_soup :: "string \<Rightarrow> soup res"
  now :: "nat \<Rightarrow> int \<times> nat"
  fromisoformat :: "string \<Rightarrow> (int \<times> nat) res"

section \<open>The extractors\<close>

text \<open>
  Each extractor is one \<^verbatim>\<open>try\<close> block whose \<^verbatim>\<open>except:\<close> clause returns \<^verbatim>\<open>None\<close>:
  \<open>except_None\<close> turns whatever the body raises into the returned value \<open>None\<close>.
\<close>

definition except_None :: "'a option res \<Rightarrow> 'a option res" where
  "except_None body = (case body of Inl e \<Rightarrow> Inr None | Inr v \<Rightarrow> Inr v)"

subsection \<open>DOI\<close>

text \<open>
  \<^verbatim>\<open>str(data.get('published-print', {}).get('date-parts', [['']])[0][0])\<close>: the default
  holds the empty text; \<^verbatim>\<open>str\<close> prints an integer in decimal and a null as \<^verbatim>\<open>None\<close>.
\<close>

definition doi_year :: "work \<Rightarrow> string res" where
  "doi_year data =
     (case date_parts (get_or (published_print data) \<lparr>date_parts = None\<rparr>) of
        None \<Rightarrow> Inr []
      | Some parts \<Rightarrow>
          bind_res (first_item parts) (\<lambda>row.
          bind_res (first_item row) (\<lambda>part.
            Inr (case part of None \<Rightarrow> ''None'' | Some n \<Rightarrow> str_int n))))"

definition extract_doi_metadata :: "world \<Rightarrow> string \<Rightarrow> metadata option res" where
  "extract_doi_metadata w doi_text =
     except_None
       (bind_res (get_json w (''https://api.crossref.org/works/'' @ doi_text)) (\<lambda>response.
        bind_res (case message response of None \<Rightarrow> Inl KeyError | Some d \<Rightarrow> Inr d) (\<lambda>data.
        bind_res (first_item (get_or (msg_title data) [[]])) (\<lambda>title_text.
        bind_res (doi_year data) (\<lambda>year_text.
        bind_res (first_item (get_or (container_title data) [[]])) (\<lambda>journal_text.
          Inr (Some
            \<lparr>title = Some title_text,
             authors = Some (map (\<lambda>author. Some (get_or (given author) [] @ '' '' @
                                                 get_or (family author) []))
                                 (get_or (msg_author data) [])),
             year = Some year_text,
             month = Some ''December'',
             journal = Some journal_text,
             volume = Some (get_or (msg_volume data) []),
             issue = Some (get_or (msg_issue data) []),
             doi = Some doi_text,
             url = Some (''https://doi.org/'' @ doi_text),
             publisher = Some (get_or (msg_publisher data) [])\<rparr>)))))))"

subsection \<open>arXiv\<close>

text \<open>
  \<^verbatim>\<open>e.find('atom:x', ns)\<close> is the first child of \<open>e\<close> with the tag \<^verbatim>\<open>x\<close> of the Atom
  namespace, or \<^verbatim>\<open>None\<close>; \<^verbatim>\<open>findall\<close> is all of them.  \<^verbatim>\<open>.text\<close> of \<^verbatim>\<open>None\<close> raises
  AttributeError, and so does \<^verbatim>\<open>.strip()\<close> of a missing text; a slice of a missing text
  raises TypeError.
\<close>

definition atom :: "string \<Rightarrow> string" where
  "atom name = ''{http://www.w3.org/2005/Atom}'' @ name"

definition xml_find :: "string \<Rightarrow> xml \<Rightarrow> xml option" where
  "xml_find name e = find (\<lambda>c. xml_tag c = atom name) (xml_children e)"

definition xml_findall :: "string \<Rightarrow> xml \<Rightarrow> xml list" where
  "xml_findall name e = filter (\<lambda>c. xml_tag c = atom name) (xml_children e)"

definition text_of :: "xml option \<Rightarrow> string option res" where
  "text_of e = (case e of None \<Rightarrow> Inl AttributeError | Some x \<Rightarrow> Inr (xml_text x))"

definition strip_of :: "string option \<Rightarrow> string res" where
  "strip_of t = (case t of None \<Rightarrow> Inl AttributeError | Some s \<Rightarrow> Inr (str_strip s))"

definition slice_of :: "nat \<Rightarrow> string option \<Rightarrow> string res" where
  "slice_of n t = (case t of None \<Rightarrow> Inl TypeError | Some s \<Rightarrow> Inr (take n s))"

definition extract_arxiv_metadata :: "world \<Rightarrow> string \<Rightarrow> metadata option res" where
  "extract_arxiv_metadata w arxiv_id =
     except_None
       (bind_res (get_xml w (''http://export.arxiv.org/api/query?id_list='' @ arxiv_id)) (\<lambda>root.
        case xml_find ''entry'' root of
          None \<Rightarrow> Inr None
        | Some entry \<Rightarrow>
            bind_res (bind_res (text_of (xml_find ''title'' entry)) strip_of) (\<lambda>title_text.
            bind_res (map_res (\<lambda>author. text_of (xml_find ''name'' author))
                        (xml_findall ''author'' entry)) (\<lambda>names.
            bind_res (bind_res (text_of (xml_find ''published'' entry)) (slice_of 4)) (\<lambda>year_text.
            bind_res (bind_res (text_of (xml_find ''published'' entry)) (slice_of 10)) (\<lambda>day_text.
            bind_res (strptime_ymd day_text) (\<lambda>(y, m, d).
              Inr (Some
                \<lparr>title = Some title_text,
                 authors = Some names,
                 year = Some year_text,
                 month = Some (month_name m),
                 journal = Some ''arXiv'',
                 volume = None,
                 issue = None,
                 doi = None,
                 url = Some (''https://arxiv.org/abs/'' @ arxiv_id),
                 publisher = Some ''Cornell University''\<rparr>))))))))"

subsection \<open>Generic pages\<close>

text \<open>
  \<^verbatim>\<open>soup.find('meta', property=v)\<close> and \<^verbatim>\<open>soup.find('meta', {'name': v})\<close>: the first
  \<^verbatim>\<open>meta\<close> tag whose attribute has the value \<open>v\<close>; \<^verbatim>\<open>find_all\<close>: all of them;
  \<^verbatim>\<open>tag.get('content', '')\<close>.  A tag is true, so \<^verbatim>\<open>a or b\<close> is \<open>b\<close> only when \<open>a\<close> is
  \<^verbatim>\<open>None\<close>.
\<close>

definition find_meta :: "string \<Rightarrow> string \<Rightarrow> soup \<Rightarrow> (string \<times> string) list option" where
  "find_meta attr v s = find (\<lambda>t. map_of t attr = Some v) (metas s)"

definition find_all_meta :: "string \<Rightarrow> string \<Rightarrow> soup \<Rightarrow> (string \<times> string) list list" where
  "find_all_meta attr v s = filter (\<lambda>t. map_of t attr = Some v) (metas s)"

definition content :: "(string \<times> string) list \<Rightarrow> string" where
  "content t = get_or (map_of t ''content'') []"

definition py_or :: "'a option \<Rightarrow> 'a option \<Rightarrow> 'a option" where
  "py_or a b = (case a of None \<Rightarrow> b | Some x \<Rightarrow> Some x)"

definition extract_general_metadata :: "world \<Rightarrow> string \<Rightarrow> metadata option res" where
  "extract_general_metadata w page_url =
     except_None
       (bind_res (get_soup w page_url) (\<lambda>s.
          let metadata =
                \<lparr>title = Some [], authors = Some [],
                 year = Some (str_int (fst (now w 0))),
                 month = Some (month_name (snd (now w 1))),
                 journal = Some [], volume = Some [], issue = Some [], doi = None,
                 url = Some page_url, publisher = Some []\<rparr>;
              title_tag = py_or (find_meta ''property'' ''og:title'' s)
                            (py_or (find_meta ''property'' ''dc:title'' s)
                                   (find_meta ''name'' ''citation_title'' s));
              metadata =
                (case title_tag of
                   Some t \<Rightarrow> metadata\<lparr>title := Some (content t)\<rparr>
                 | None \<Rightarrow>
                     (case soup_title s of
                        Some title_string \<Rightarrow> metadata\<lparr>title := title_string\<rparr>
                      | None \<Rightarrow> metadata));
              author_tags = find_all_meta ''name'' ''citation_author'' s;
              metadata =
                (if author_tags \<noteq> []
                 then metadata\<lparr>authors := Some (map (\<lambda>t. Some (content t)) author_tags)\<rparr>
                 else
                   (case py_or (find_meta ''name'' ''author'' s)
                               (find_meta ''property'' ''article:author'' s) of
                      Some t \<Rightarrow> metadata\<lparr>authors := Some [Some (content t)]\<rparr>
                    | None \<Rightarrow> metadata));
              date_tag = py_or (find_meta ''name'' ''citation_publication_date'' s)
                               (find_meta ''property'' ''article:published_time'' s);
              metadata =
                (case date_tag of
                   Some t \<Rightarrow>
                     (case bind_res (first_item (str_split_sep ''T'' (content t)))
                             (fromisoformat w) of
                        Inr (y, m) \<Rightarrow>
                          metadata\<lparr>year := Some (str_int y), month := Some (month_name m)\<rparr>
                      | Inl e \<Rightarrow> metadata)
                 | None \<Rightarrow> metadata);
              metadata =
                (case find_meta ''name'' ''citation_journal_title'' s of
                   Some t \<Rightarrow> metadata\<lparr>journal := Some (content t)\<rparr>
                 | None \<Rightarrow> metadata);
              metadata =
                (case find_meta ''name'' ''citation_volume'' s of
                   Some t \<Rightarrow> metadata\<lparr>volume := Some (content t)\<rparr>
                 | None \<Rightarrow> metadata);
              metadata =
                (case find_meta ''name'' ''citation_issue'' s of
                   Some t \<Rightarrow> metadata\<lparr>issue := Some (content t)\<rparr>
                 | None \<Rightarrow> metadata)
          in Inr (Some metadata)))"

section \<open>The source classifier\<close>

text \<open>\<^verbatim>\<open>if metadata:\<close> on what an extractor returned: a dict with a key.\<close>

definition dict_truthy :: "metadata option \<Rightarrow> bool" where
  "dict_truthy md = (case md of None \<Rightarrow> False | Some m \<Rightarrow> \<not> no_keys m)"

text \<open>
  The DOI that \<^verbatim>\<open>identify_url_type\<close> hands to the DOI extractor, if it calls it: the
  match of the pattern, or without a match the text after the last \<^verbatim>\<open>doi.org/\<close> of a
  URL that contains \<^verbatim>\<open>doi.org\<close>.
\<close>

definition doi_candidate :: "string \<Rightarrow> string option" where
  "doi_candidate page_url =
     (let doi_match = re_search doi_pattern page_url in
      if doi_match \<noteq> None \<or> str_contains ''doi.org'' page_url then
        (case doi_match of
           Some (group0, gs) \<Rightarrow> Some group0
         | None \<Rightarrow> Some (last (str_split_sep ''doi.org/'' page_url)))
      else None)"

text \<open>The arXiv identifier, \<^verbatim>\<open>arxiv_match.group(1)\<close>, if the pattern matches.\<close>

definition arxiv_candidate :: "string \<Rightarrow> string option" where
  "arxiv_candidate page_url =
     (case re_search arxiv_pattern page_url of
        Some (group0, group1 # gs) \<Rightarrow> Some group1
      | _ \<Rightarrow> None)"

text \<open>The part of \<^verbatim>\<open>identify_url_type\<close> after the DOI check.\<close>

definition identify_after_doi :: "world \<Rightarrow> string \<Rightarrow> metadata option res" where
  "identify_after_doi w page_url =
     (case arxiv_candidate page_url of
        Some arxiv_id \<Rightarrow>
          bind_res (extract_arxiv_metadata w arxiv_id) (\<lambda>metadata.
            if dict_truthy metadata then Inr metadata
            else extract_general_metadata w page_url)
      | None \<Rightarrow> extract_general_metadata w page_url)"

definition identify_url_type :: "world \<Rightarrow> string \<Rightarrow> metadata option res" where
  "identify_url_type w page_url =
     (case doi_candidate page_url of
        Some doi_text \<Rightarrow>
          bind_res (extract_doi_metadata w doi_text) (\<lambda>metadata.
            if dict_truthy metadata then Inr metadata
            else identify_after_doi w page_url)
      | None \<Rightarrow> identify_after_doi w page_url)"

section \<open>The pipeline\<close>

text \<open>
  \<^verbatim>\<open>main\<close>, without the page's widgets: for the URL and the style entered, the citation
  that \<^verbatim>\<open>st.text\<close> shows, or \<open>None\<close> when nothing is shown.
\<close>

datatype style = APA | Chicago | MLA

definition main :: "world \<Rightarrow> string \<Rightarrow> style \<Rightarrow> string option res" where
  "main w page_url st =
     (if page_url = [] then Inr None
      else
        bind_res (identify_url_type w page_url) (\<lambda>metadata.
          if dict_truthy metadata then
            bind_res (case st of
                        APA \<Rightarrow> format_apa_citation metadata
                      | Chicago \<Rightarrow> format_chicago_citation metadata
                      | MLA \<Rightarrow> Inr (format_mla_citation metadata)) (\<lambda>citation.
              Inr (Some citation))
          else Inr None))"

section \<open>Example records\<close>

text \<open>A record with every field set, for the concrete instances below.\<close>

definition example_record :: "string \<Rightarrow> string option list \<Rightarrow> string \<Rightarrow> metadata" where
  "example_record t as u =
     \<lparr>title = Some t, authors = Some as, year = Some ''2023'', month = Some ''December'',
      journal = Some ''Journal of Examples'', volume = Some ''5'', issue = Some ''2'',
      doi = Some ''10.1000/xyz123'', url = Some u, publisher = Some ''Example Press''\<rparr>"

section \<open>Example worlds\<close>

text \<open>
  A world in which every request fails, on the fourth of November 2026; the concrete
  instances below let one service answer.
\<close>

definition offline :: world where
  "offline =
     \<lparr>get_json = (\<lambda>u. Inl RequestException),
      get_xml = (\<lambda>u. Inl RequestException),
      get_soup = (\<lambda>u. Inl RequestException),
      now = (\<lambda>k. (2026, 11)),
      fromisoformat = (\<lambda>s. Inl ValueError)\<rparr>"

definition example_work :: work where
  "example_work =
     \<lparr>msg_title = Some [''Example Paper''],
      msg_author = Some [\<lparr>given = Some ''Jane'', family = Some ''Doe''\<rparr>],
      published_print = Some \<lparr>date_parts = Some [[Some 2023]]\<rparr>,
      container_title = Some [''Journal of Examples''],
      msg_volume = Some ''5'', msg_issue = Some ''2'',
      msg_publisher = Some ''Example Press''\<rparr>"

definition example_entry :: xml where
  "example_entry =
     Element (atom ''entry'') None
       [Element (atom ''id'') (Some ''http://arxiv.org/abs/2301.12345v1'') [],
        Element (atom ''published'') (Some ''2023-05-10T00:00:00Z'') [],
        Element (atom ''title'') (Some ''Deep Learning Survey'') [],
        Element (atom ''author'') None [Element (atom ''name'') (Some ''Alice Smith'') []]]"

definition example_feed :: xml where
  "example_feed =
     Element (atom ''feed'') None
       [Element (atom ''title'') (Some ''arXiv Query'') [], example_entry]"

text \<open>A feed with one entry, of the given elements.\<close>

definition entry_feed :: "xml list \<Rightarrow> xml" where
  "entry_feed es = Element (atom ''feed'') None [Element (atom ''entry'') None es]"

definition example_page :: soup where
  "example_page =
     \<lparr>metas = [[(''name'', ''citation_author''), (''content'', ''Ann Lee'')],
               [(''property'', ''og:title''), (''content'', ''A Page'')]],
      soup_title = Some (Some ''Another title'')\<rparr>"

section \<open>Properties of the formatters\<close>

subsection \<open>Auxiliary facts\<close>

lemma truthy_not_no_keys: "truthy (title m) \<Longrightarrow> \<not> no_keys m"
  by (auto simp: truthy_def no_keys_def)

lemma split_from_tokens: "t \<in> set (split_from cur s) \<Longrightarrow> t \<noteq> []"
  by (induction s arbitrary: cur) (auto split: if_splits)

lemma split_from_empty:
  "split_from cur s = [] \<longleftrightarrow> cur = [] \<and> (\<forall>c \<in> set s. is_space c)"
  by (induction s arbitrary: cur) auto

lemma str_split_empty: "str_split a = [] \<longleftrightarrow> (\<forall>c \<in> set a. is_space c)"
  by (simp add: str_split_def split_from_empty)

lemma map_res_first_char:
  "(\<forall>t \<in> set ts. t \<noteq> []) \<Longrightarrow> map_res first_char ts = Inr (map (\<lambda>t. [hd t]) ts)"
  by (induction ts) (auto simp: bind_res_def first_char_def split: list.splits)

lemma map_res_returns:
  "(\<forall>a \<in> set as. \<exists>r. f a = Inr r) \<Longrightarrow> \<exists>rs. map_res f as = Inr rs"
  by (induction as) (auto simp: bind_res_def)

lemma map_res_raises:
  "a \<in> set as \<Longrightarrow> f a = Inl e \<Longrightarrow>
   (\<forall>b \<in> set as. f b = Inl e \<or> (\<exists>r. f b = Inr r)) \<Longrightarrow> map_res f as = Inl e"
  by (induction as) (auto simp: bind_res_def split: sum.splits)

lemma map_res_raises_some:
  "a \<in> set as \<Longrightarrow> f a = Inl e \<Longrightarrow> \<exists>e'. map_res f as = Inl e'"
  by (induction as) (auto simp: bind_res_def split: sum.splits)

text \<open>
  One author: the rendering returns exactly when the name is a text with a token, and
  raises IndexError (at \<^verbatim>\<open>a.split()[-1]\<close>) on a text without one.  The tokens of
  \<^verbatim>\<open>split()\<close> are never empty, so \<^verbatim>\<open>n[0]\<close> cannot raise.
\<close>

lemma apa_author_returns:
  assumes "str_split s \<noteq> []"
  shows "apa_author (Some s) =
           Inr (last (str_split s) @ '', '' @
                str_join ''. '' (map (\<lambda>t. [hd t]) (butlast (str_split s))) @ ''.'')"
proof -
  have "\<forall>t \<in> set (butlast (str_split s)). t \<noteq> []"
    using split_from_tokens in_set_butlastD unfolding str_split_def by metis
  then show ?thesis
    using assms by (simp add: apa_author_def last_item_def bind_res_def map_res_first_char)
qed

lemma apa_author_raises: "str_split s = [] \<Longrightarrow> apa_author (Some s) = Inl IndexError"
  by (simp add: apa_author_def last_item_def bind_res_def)

lemma apa_author_None: "apa_author None = Inl AttributeError"
  by (simp add: apa_author_def)

lemma apa_author_cases:
  "b \<noteq> None \<Longrightarrow> apa_author b = Inl IndexError \<or> (\<exists>r. apa_author b = Inr r)"
proof (cases b)
  case (Some s)
  then show ?thesis
    by (cases "str_split s = []") (auto simp: apa_author_raises apa_author_returns)
qed simp

lemma apa_author_ok:
  assumes "\<exists>s. a = Some s \<and> str_split s \<noteq> []"
  shows "\<exists>r. apa_author a = Inr r"
proof -
  from assms obtain s where "a = Some s" "str_split s \<noteq> []" by blast
  then show ?thesis by (simp add: apa_author_returns)
qed

lemma apa_author_text_returns:
  assumes "\<forall>a \<in> set as. \<exists>s. a = Some s \<and> str_split s \<noteq> []"
  shows "\<exists>t. apa_author_text as = Inr t"
proof -
  have all: "\<forall>a \<in> set as. \<exists>r. apa_author a = Inr r"
    using assms apa_author_ok by blast
  then obtain rs where "map_res apa_author as = Inr rs"
    using map_res_returns by blast
  moreover have "\<exists>r. apa_author (hd as) = Inr r" if "as \<noteq> []"
    using all that by simp
  ultimately show ?thesis
    by (auto simp: apa_author_text_def bind_res_def)
qed

lemma apa_author_text_raises_some:
  assumes "a \<in> set as" "apa_author a = Inl e"
  shows "\<exists>e'. apa_author_text as = Inl e'"
proof (cases "length as > 1")
  case True
  obtain e' where "map_res apa_author as = Inl e'"
    using map_res_raises_some [of a as apa_author e] assms by blast
  with True show ?thesis by (simp add: apa_author_text_def bind_res_def)
next
  case False
  with assms(1) have "as = [a]" by (cases as) auto
  then show ?thesis by (simp add: apa_author_text_def assms(2))
qed

lemma apa_author_text_raises:
  assumes "a \<in> set as" "a = Some s" "str_split s = []" "\<forall>b \<in> set as. b \<noteq> None"
  shows "apa_author_text as = Inl IndexError"
proof (cases "length as > 1")
  case True
  have "map_res apa_author as = Inl IndexError"
    using map_res_raises[of a as apa_author IndexError] assms apa_author_raises
      apa_author_cases by blast
  with True show ?thesis by (simp add: apa_author_text_def bind_res_def)
next
  case False
  with assms(1) have "as = [a]" by (cases as) auto
  then show ?thesis
    using assms by (simp add: apa_author_text_def apa_author_raises)
qed

lemma chicago_author_text_returns:
  assumes "\<forall>a \<in> set as. a \<noteq> None"
  shows "\<exists>t. chicago_author_text as = Inr t"
proof -
  have *: "\<exists>r. need_str a = Inr r" if "a \<in> set as" for a
    using assms that by (cases a) (auto simp: need_str_def)
  then have "\<forall>a \<in> set (butlast as). \<exists>r. need_str a = Inr r"
    using in_set_butlastD by metis
  then obtain rs where "map_res need_str (butlast as) = Inr rs"
    using map_res_returns by blast
  moreover have "as \<noteq> [] \<Longrightarrow> \<exists>r. need_str (last as) = Inr r"
    using * by simp
  ultimately show ?thesis
    by (auto simp: chicago_author_text_def bind_res_def)
qed

lemma format_apa_returns_iff:
  assumes "truthy (title m)"
  shows "(\<exists>c. format_apa_citation (Some m) = Inr c) \<longleftrightarrow>
         (\<exists>t. apa_author_text (get_or (authors m) []) = Inr t)"
  using assms
  by (auto simp: format_apa_citation_def truthy_not_no_keys bind_res_def Let_def
      split: sum.splits)

lemma format_apa_raises:
  assumes "truthy (title m)" "apa_author_text (get_or (authors m) []) = Inl e"
  shows "format_apa_citation (Some m) = Inl e"
  using assms by (auto simp: format_apa_citation_def truthy_not_no_keys bind_res_def)

lemma apa_doi_suffix:
  assumes "truthy (title m)" "doi m = Some d" "d \<noteq> []"
    and "format_apa_citation (Some m) = Inr c"
  shows "suffix (''. https://doi.org/'' @ d) c"
proof (cases "apa_author_text (get_or (authors m) [])")
  case (Inl e)
  then show ?thesis using format_apa_raises assms by fastforce
next
  case (Inr a)
  then show ?thesis
    using assms
    by (simp add: format_apa_citation_def truthy_not_no_keys Let_def bind_res_def)
      (auto simp add: suffix_to_prefix truthy_def item_def)
qed

lemma chicago_doi_suffix:
  assumes "truthy (title m)" "doi m = Some d" "d \<noteq> []"
    and "format_chicago_citation (Some m) = Inr c"
  shows "suffix ('' https://doi.org/'' @ d @ ''.'') c"
proof (cases "chicago_author_text (get_or (authors m) [])")
  case (Inl e)
  then show ?thesis
    using assms by (simp add: format_chicago_citation_def truthy_not_no_keys bind_res_def)
next
  case (Inr a)
  then show ?thesis
    using assms
    by (simp add: format_chicago_citation_def truthy_not_no_keys Let_def bind_res_def)
      (auto simp add: suffix_to_prefix truthy_def item_def)
qed

lemma format_chicago_returns:
  assumes "truthy (title m)" "chicago_author_text (get_or (authors m) []) = Inr t"
  shows "\<exists>c. format_chicago_citation (Some m) = Inr c"
  using assms
  by (simp add: format_chicago_citation_def truthy_not_no_keys bind_res_def Let_def)

lemma mla_doi_suffix:
  assumes "truthy (title m)" "doi m = Some d" "d \<noteq> []"
  shows "suffix (''. Crossref, https://doi.org/'' @ d @ ''.'') (format_mla_citation (Some m))"
  using assms
  by (simp add: format_mla_citation_def truthy_not_no_keys Let_def suffix_to_prefix
      truthy_def item_def)

lemma doi_hides_url:
  assumes "truthy (title m)" "doi m = Some d" "d \<noteq> []"
  shows "format_apa_citation (Some (m\<lparr>url := u\<rparr>)) = format_apa_citation (Some m)
       \<and> format_chicago_citation (Some (m\<lparr>url := u\<rparr>)) = format_chicago_citation (Some m)
       \<and> format_mla_citation (Some (m\<lparr>url := u\<rparr>)) = format_mla_citation (Some m)"
  using assms
  by (simp add: format_apa_citation_def format_chicago_citation_def
      format_mla_citation_def truthy_not_no_keys Let_def truthy_def cong: if_cong)

subsection \<open>Empty title\<close>

text \<open>
  C1.  A record whose title is empty (the key holds the empty string, or is missing)
  makes each of the three formatters return exactly the text
  "Unable to generate citation.", whatever the other fields hold.
\<close>

theorem empty_title_unable:
  assumes "title m = None \<or> title m = Some []"
  shows "format_apa_citation (Some m) = Inr ''Unable to generate citation.''
       \<and> format_chicago_citation (Some m) = Inr ''Unable to generate citation.''
       \<and> format_mla_citation (Some m) = ''Unable to generate citation.''"
  using assms
  by (auto simp: format_apa_citation_def format_chicago_citation_def
      format_mla_citation_def truthy_def unable_def)

theorem empty_title_unable_witness:
  "format_apa_citation (Some (example_record [] [Some ''Jane Doe'', Some '' '', None] ''https://doi.org/10.1000/xyz123''))
     = Inr ''Unable to generate citation.''
   \<and> format_chicago_citation (Some (example_record [] [Some ''Jane Doe'', Some '' '', None] ''https://doi.org/10.1000/xyz123''))
     = Inr ''Unable to generate citation.''
   \<and> format_mla_citation (Some (example_record [] [Some ''Jane Doe'', Some '' '', None] ''https://doi.org/10.1000/xyz123''))
     = ''Unable to generate citation.''"
  using empty_title_unable [of "example_record [] [Some ''Jane Doe'', Some '' '', None] ''https://doi.org/10.1000/xyz123''"]
  by (simp add: example_record_def)

subsection \<open>The DOI is the terminal locator\<close>

text \<open>
  C2.  For a record with a nonempty title and a nonempty doi, every formatter ends the
  citation with the locator built from the doi: APA with \<^verbatim>\<open>. https://doi.org/{doi}\<close>,
  Chicago with \<^verbatim>\<open> https://doi.org/{doi}.\<close> and MLA with
  \<^verbatim>\<open>. Crossref, https://doi.org/{doi}.\<close> (these two styles close the citation with a
  period).  This holds of every citation a formatter returns, and APA and Chicago do
  return one when the authors are texts (for APA: each with a token).  The url field is
  never the locator: no formatter's result depends on it.
\<close>

theorem doi_locator_precedence:
  assumes "truthy (title m)" "doi m = Some d" "d \<noteq> []"
  shows "((\<forall>a \<in> set (get_or (authors m) []). \<exists>s. a = Some s \<and> str_split s \<noteq> []) \<longrightarrow>
           (\<exists>c. format_apa_citation (Some m) = Inr c))
       \<and> (\<forall>c. format_apa_citation (Some m) = Inr c \<longrightarrow>
             suffix (''. https://doi.org/'' @ d) c)
       \<and> ((\<forall>a \<in> set (get_or (authors m) []). a \<noteq> None) \<longrightarrow>
           (\<exists>c. format_chicago_citation (Some m) = Inr c))
       \<and> (\<forall>c. format_chicago_citation (Some m) = Inr c \<longrightarrow>
             suffix ('' https://doi.org/'' @ d @ ''.'') c)
       \<and> suffix (''. Crossref, https://doi.org/'' @ d @ ''.'') (format_mla_citation (Some m))
       \<and> (\<forall>u. format_apa_citation (Some (m\<lparr>url := u\<rparr>)) = format_apa_citation (Some m)
              \<and> format_chicago_citation (Some (m\<lparr>url := u\<rparr>)) = format_chicago_citation (Some m)
              \<and> format_mla_citation (Some (m\<lparr>url := u\<rparr>)) = format_mla_citation (Some m))"
proof (intro conjI impI allI)
  assume "\<forall>a \<in> set (get_or (authors m) []). \<exists>s. a = Some s \<and> str_split s \<noteq> []"
  then show "\<exists>c. format_apa_citation (Some m) = Inr c"
    using apa_author_text_returns format_apa_returns_iff [OF assms(1)] by blast
next
  fix c assume "format_apa_citation (Some m) = Inr c"
  then show "suffix (''. https://doi.org/'' @ d) c"
    using apa_doi_suffix assms by blast
next
  assume "\<forall>a \<in> set (get_or (authors m) []). a \<noteq> None"
  then show "\<exists>c. format_chicago_citation (Some m) = Inr c"
    using chicago_author_text_returns format_chicago_returns [OF assms(1)] by blast
next
  fix c assume "format_chicago_citation (Some m) = Inr c"
  then show "suffix ('' https://doi.org/'' @ d @ ''.'') c"
    using chicago_doi_suffix assms by blast
next
  show "suffix (''. Crossref, https://doi.org/'' @ d @ ''.'') (format_mla_citation (Some m))"
    using assms by (rule mla_doi_suffix)
next
  fix u
  show "format_apa_citation (Some (m\<lparr>url := u\<rparr>)) = format_apa_citation (Some m)"
    and "format_chicago_citation (Some (m\<lparr>url := u\<rparr>)) = format_chicago_citation (Some m)"
    and "format_mla_citation (Some (m\<lparr>url := u\<rparr>)) = format_mla_citation (Some m)"
    using doi_hides_url [OF assms] by blast+
qed

theorem doi_locator_precedence_witness:
  "(\<exists>c. format_apa_citation (Some (example_record ''Example Paper'' [Some ''Jane Doe''] ''https://example.com/paper'')) = Inr c
     \<and> suffix ''. https://doi.org/10.1000/xyz123'' c)
   \<and> (\<exists>c. format_chicago_citation (Some (example_record ''Example Paper'' [Some ''Jane Doe''] ''https://example.com/paper'')) = Inr c
     \<and> suffix '' https://doi.org/10.1000/xyz123.'' c)
   \<and> suffix ''. Crossref, https://doi.org/10.1000/xyz123.''
       (format_mla_citation (Some (example_record ''Example Paper'' [Some ''Jane Doe''] ''https://example.com/paper'')))"
  using doi_locator_precedence [of "example_record ''Example Paper'' [Some ''Jane Doe''] ''https://example.com/paper''" "''10.1000/xyz123''"]
  by (auto simp add: truthy_def get_or_def str_split_def is_space_def example_record_def)

subsection \<open>Author segments\<close>

text \<open>
  C6.  The APA author segment of the single author "Jane Ann Doe" is "Doe, J. A.", and
  that of the two authors "Jane Doe" and "John Smith" is "Doe, J., & Smith, J.".  A
  citation of a record with a nonempty title and these authors starts with the segment,
  followed by the opening of the date, " (".
\<close>

theorem apa_author_segments:
  assumes "truthy (title m)"
  shows "apa_author_text [Some ''Jane Ann Doe''] = Inr ''Doe, J. A.''
       \<and> apa_author_text [Some ''Jane Doe'', Some ''John Smith''] = Inr ''Doe, J., & Smith, J.''
       \<and> (authors m = Some [Some ''Jane Ann Doe''] \<longrightarrow>
            (\<exists>rest. format_apa_citation (Some m) = Inr (''Doe, J. A.'' @ '' ('' @ rest)))
       \<and> (authors m = Some [Some ''Jane Doe'', Some ''John Smith''] \<longrightarrow>
            (\<exists>rest. format_apa_citation (Some m) =
                      Inr (''Doe, J., & Smith, J.'' @ '' ('' @ rest)))"
proof -
  have one: "apa_author_text [Some ''Jane Ann Doe''] = Inr ''Doe, J. A.''"
    by (simp add: apa_author_text_def apa_author_def str_split_def is_space_def
        last_item_def first_char_def bind_res_def)
  have two: "apa_author_text [Some ''Jane Doe'', Some ''John Smith'']
               = Inr ''Doe, J., & Smith, J.''"
    by (simp add: apa_author_text_def apa_author_def str_split_def is_space_def
        last_item_def first_char_def bind_res_def)
  have shape: "\<exists>rest. format_apa_citation (Some m) = Inr (seg @ '' ('' @ rest)"
    if "apa_author_text (get_or (authors m) []) = Inr seg" for seg
    using assms that
    by (simp add: format_apa_citation_def truthy_not_no_keys bind_res_def Let_def)
  show ?thesis
    using one two shape [of "''Doe, J. A.''"] shape [of "''Doe, J., & Smith, J.''"]
    by (auto simp: get_or_def)
qed

theorem apa_author_segments_witness:
  "(\<exists>rest. format_apa_citation (Some (example_record ''Example Paper'' [Some ''Jane Ann Doe''] ''https://example.com/paper'')) = Inr (''Doe, J. A.'' @ '' ('' @ rest))
   \<and> (\<exists>rest. format_apa_citation (Some (example_record ''Example Paper'' [Some ''Jane Doe'', Some ''John Smith''] ''https://example.com/paper'')) = Inr (''Doe, J., & Smith, J.'' @ '' ('' @ rest))"
  using apa_author_segments [of "example_record ''Example Paper'' [Some ''Jane Ann Doe''] ''https://example.com/paper''"]
    apa_author_segments [of "example_record ''Example Paper'' [Some ''Jane Doe'', Some ''John Smith''] ''https://example.com/paper''"]
  by (simp add: truthy_def example_record_def)

text \<open>
  C7.  With a nonempty title and more than one author, the MLA author segment is the
  first author's name verbatim followed by ", et al": the citation is that segment
  followed by the citation of the same record without authors, and it is the same
  whatever authors follow the first.
\<close>

theorem mla_et_al:
  assumes "truthy (title m)" "authors m = Some (Some a # b # rest)"
  shows "mla_author_text (Some a # b # rest) = a @ '', et al''
       \<and> format_mla_citation (Some m) =
           (a @ '', et al'') @ format_mla_citation (Some (m\<lparr>authors := Some []\<rparr>))
       \<and> (\<forall>b' rest'. format_mla_citation (Some (m\<lparr>authors := Some (Some a # b' # rest')\<rparr>)) =
            format_mla_citation (Some m))"
  using assms
  by (simp add: format_mla_citation_def mla_author_text_def truthy_not_no_keys get_or_def
      py_format_def Let_def)

theorem mla_et_al_witness:
  "format_mla_citation (Some (example_record ''Example Paper'' [Some ''Alice Smith'', Some ''Bob Jones'', Some ''Carol White''] ''https://example.com/paper'')) =
     ''Alice Smith, et al'' @ format_mla_citation (Some ((example_record ''Example Paper'' [Some ''Alice Smith'', Some ''Bob Jones'', Some ''Carol White''] ''https://example.com/paper'')\<lparr>authors := Some []\<rparr>))
   \<and> format_mla_citation
        (Some ((example_record ''Example Paper'' [Some ''Alice Smith'', Some ''Bob Jones'', Some ''Carol White''] ''https://example.com/paper'')\<lparr>authors := Some [Some ''Alice Smith'', Some ''Dan Brown'']\<rparr>)) =
     format_mla_citation (Some (example_record ''Example Paper'' [Some ''Alice Smith'', Some ''Bob Jones'', Some ''Carol White''] ''https://example.com/paper''))"
  using mla_et_al [of "example_record ''Example Paper'' [Some ''Alice Smith'', Some ''Bob Jones'', Some ''Carol White''] ''https://example.com/paper''" "''Alice Smith''" "Some ''Bob Jones''" "[Some ''Carol White'']"]
  by (auto simp: truthy_def example_record_def)

subsection \<open>Totality of the APA author rendering\<close>

lemma map_res_apa_names:
  assumes "\<forall>s \<in> set ss. str_split s \<noteq> []"
  shows "map_res apa_author (map Some ss) =
           Inr (map (\<lambda>s. last (str_split s) @ '', '' @
                         str_join ''. '' (map (\<lambda>t. [hd t]) (butlast (str_split s))) @ ''.'') ss)"
  using assms by (induction ss) (simp_all add: apa_author_returns bind_res_def)

lemma apa_author_text_names:
  assumes "\<forall>s \<in> set ss. str_split s \<noteq> []"
  shows "apa_author_text (map Some ss) =
           Inr (let name = (\<lambda>s. last (str_split s) @ '', '' @
                              str_join ''. '' (map (\<lambda>t. [hd t]) (butlast (str_split s))) @ ''.'')
                in if length ss > 1
                   then str_join '', '' (butlast (map name ss)) @ '', & '' @ last (map name ss)
                   else if ss \<noteq> [] then name (hd ss) else [])"
proof (cases ss)
  case Nil
  then show ?thesis by (simp add: apa_author_text_def)
next
  case (Cons s rest)
  then have "str_split s \<noteq> []" using assms by simp
  then show ?thesis
    using Cons map_res_apa_names [OF assms]
    by (simp add: apa_author_text_def bind_res_def apa_author_returns Let_def)
qed

lemma apa_citation_split:
  assumes "truthy (title m)" "apa_author_text (get_or (authors m) []) = Inr seg"
  shows "\<exists>rest. format_apa_citation (Some (m\<lparr>authors := Some []\<rparr>)) = Inr ('' ('' @ rest)
              \<and> format_apa_citation (Some m) = Inr (seg @ '' ('' @ rest)"
proof -
  have keys: "\<not> no_keys m" "\<not> no_keys (m\<lparr>authors := Some []\<rparr>)"
    using assms(1) truthy_not_no_keys [of m] truthy_not_no_keys [of "m\<lparr>authors := Some []\<rparr>"]
    by simp_all
  have none: "apa_author_text (get_or (Some []) []) = Inr []"
    by (simp add: apa_author_text_def get_or_def)
  show ?thesis
    using assms keys none
    by (simp add: format_apa_citation_def bind_res_def Let_def cong: if_cong)
qed


text \<open>
  C10.  For a record with a nonempty title, the APA formatter returns a citation when
  every author string has at least one whitespace-separated token: the citation is the
  author segment (for each author the last token, a comma and the first characters of
  the tokens before it, joined as the code joins them) followed by the citation of the
  same record without authors, which opens with " (".  It raises when some author string
  has no token: IndexError, when the authors are all texts.  A string has no token
  exactly when it is empty or all whitespace; then \<^verbatim>\<open>a.split()[-1]\<close> is out of range.
  The single-token name "Cher" renders as "Cher, .", with empty initials, and a record
  with that one author is cited as "Cher, . (" and so on.
\<close>

theorem apa_total_iff_tokens:
  assumes "truthy (title m)"
  shows "((\<forall>a \<in> set (get_or (authors m) []). \<exists>s. a = Some s \<and> str_split s \<noteq> []) \<longrightarrow>
            (\<exists>c. format_apa_citation (Some m) = Inr c))
       \<and> (\<forall>ss. get_or (authors m) [] = map Some ss \<and> (\<forall>s \<in> set ss. str_split s \<noteq> []) \<longrightarrow>
            (\<exists>rest. format_apa_citation (Some (m\<lparr>authors := Some []\<rparr>)) = Inr ('' ('' @ rest)
               \<and> format_apa_citation (Some m) =
                   Inr ((let name = (\<lambda>s. last (str_split s) @ '', '' @
                                      str_join ''. '' (map (\<lambda>t. [hd t]) (butlast (str_split s))) @
                                      ''.'')
                         in if length ss > 1
                            then str_join '', '' (butlast (map name ss)) @ '', & '' @
                                 last (map name ss)
                            else if ss \<noteq> [] then name (hd ss) else [])
                        @ '' ('' @ rest)))
       \<and> ((\<exists>a \<in> set (get_or (authors m) []). \<exists>s. a = Some s \<and> str_split s = []) \<longrightarrow>
            (\<exists>e. format_apa_citation (Some m) = Inl e)
            \<and> ((\<forall>b \<in> set (get_or (authors m) []). b \<noteq> None) \<longrightarrow>
                 format_apa_citation (Some m) = Inl IndexError))
       \<and> (\<forall>s. (str_split s = [] \<longleftrightarrow> (\<forall>c \<in> set s. is_space c))
            \<and> (str_split s = [] \<longrightarrow>
                 last_item (str_split s) = Inl IndexError
                 \<and> apa_author (Some s) = Inl IndexError))
       \<and> apa_author (Some ''Cher'') = Inr ''Cher, .''
       \<and> (get_or (authors m) [] = [Some ''Cher''] \<longrightarrow>
            (\<exists>rest. format_apa_citation (Some (m\<lparr>authors := Some []\<rparr>)) = Inr ('' ('' @ rest)
               \<and> format_apa_citation (Some m) = Inr (''Cher, .'' @ '' ('' @ rest)))"
proof (intro conjI impI allI)
  assume "\<forall>a \<in> set (get_or (authors m) []). \<exists>s. a = Some s \<and> str_split s \<noteq> []"
  then show "\<exists>c. format_apa_citation (Some m) = Inr c"
    using format_apa_returns_iff [OF assms] apa_author_text_returns by blast
next
  fix ss
  assume "get_or (authors m) [] = map Some ss \<and> (\<forall>s \<in> set ss. str_split s \<noteq> [])"
  then show "\<exists>rest. format_apa_citation (Some (m\<lparr>authors := Some []\<rparr>)) = Inr ('' ('' @ rest)
               \<and> format_apa_citation (Some m) =
                   Inr ((let name = (\<lambda>s. last (str_split s) @ '', '' @
                                      str_join ''. '' (map (\<lambda>t. [hd t]) (butlast (str_split s))) @
                                      ''.'')
                         in if length ss > 1
                            then str_join '', '' (butlast (map name ss)) @ '', & '' @
                                 last (map name ss)
                            else if ss \<noteq> [] then name (hd ss) else [])
                        @ '' ('' @ rest)"
    using apa_citation_split [OF assms] apa_author_text_names [of ss] by simp
next
  assume "\<exists>a \<in> set (get_or (authors m) []). \<exists>s. a = Some s \<and> str_split s = []"
  then show "\<exists>e. format_apa_citation (Some m) = Inl e"
    using format_apa_raises [OF assms] apa_author_text_raises_some apa_author_raises
    by blast
next
  assume "\<exists>a \<in> set (get_or (authors m) []). \<exists>s. a = Some s \<and> str_split s = []"
    and "\<forall>b \<in> set (get_or (authors m) []). b \<noteq> None"
  then show "format_apa_citation (Some m) = Inl IndexError"
    using format_apa_raises [OF assms] apa_author_text_raises by blast
next
  fix s
  show "str_split s = [] \<longleftrightarrow> (\<forall>c \<in> set s. is_space c)"
    by (rule str_split_empty)
next
  fix s
  assume "str_split s = []"
  then show "last_item (str_split s) = Inl IndexError"
    by (simp add: last_item_def)
next
  fix s
  assume "str_split s = []"
  then show "apa_author (Some s) = Inl IndexError"
    by (rule apa_author_raises)
next
  show "apa_author (Some ''Cher'') = Inr ''Cher, .''"
    by (simp add: apa_author_def str_split_def is_space_def last_item_def bind_res_def
        first_char_def)
next
  assume "get_or (authors m) [] = [Some ''Cher'']"
  moreover have "apa_author_text [Some ''Cher''] = Inr ''Cher, .''"
    by (simp add: apa_author_text_def apa_author_def str_split_def is_space_def
        last_item_def bind_res_def first_char_def)
  ultimately show "\<exists>rest. format_apa_citation (Some (m\<lparr>authors := Some []\<rparr>)) = Inr ('' ('' @ rest)
               \<and> format_apa_citation (Some m) = Inr (''Cher, .'' @ '' ('' @ rest)"
    using apa_citation_split [OF assms] by simp
qed

lemma apa_authorless_example:
  "format_apa_citation
     (Some ((example_record ''Believe'' [Some ''Cher''] ''https://example.com/paper'')
              \<lparr>authors := Some []\<rparr>)) =
   Inr '' (2023, December). Believe. Journal of Examples, 5(2). https://doi.org/10.1000/xyz123''"
  by (simp add: example_record_def format_apa_citation_def no_keys_def truthy_def get_or_def
      item_def apa_author_text_def bind_res_def Let_def)

theorem apa_total_iff_tokens_witness:
  "format_apa_citation (Some (example_record ''Believe'' [Some ''Cher''] ''https://example.com/paper'')) =
     Inr ''Cher, . (2023, December). Believe. Journal of Examples, 5(2). https://doi.org/10.1000/xyz123''
   \<and> format_apa_citation (Some (example_record ''Example Paper'' [Some ''Jane Doe'', Some ''  ''] ''https://example.com/paper'')) =
     Inl IndexError
   \<and> format_apa_citation (Some (example_record ''Example Paper'' [Some [CHR 0xA0]] ''https://example.com/paper'')) =
     Inl IndexError
   \<and> format_apa_citation (Some (example_record ''Example Paper'' [Some [CHR 0x85, CHR 0x09]] ''https://example.com/paper'')) =
     Inl IndexError"
proof -
  have titled: "truthy (title (example_record t as u))" if "t \<noteq> []" for t as u
    using that by (simp add: example_record_def truthy_def)
  have listed: "get_or (authors (example_record t as u)) [] = as" for t as u
    by (simp add: example_record_def get_or_def)
  have cher: "format_apa_citation (Some (example_record ''Believe'' [Some ''Cher''] ''https://example.com/paper'')) =
     Inr ''Cher, . (2023, December). Believe. Journal of Examples, 5(2). https://doi.org/10.1000/xyz123''"
    using apa_total_iff_tokens [of "example_record ''Believe'' [Some ''Cher''] ''https://example.com/paper''"]
      apa_authorless_example
    by (simp add: titled listed)
  have blank: "format_apa_citation (Some (example_record ''Example Paper'' as ''https://example.com/paper'')) =
     Inl IndexError"
    if "as = [Some ''Jane Doe'', Some ''  ''] \<or> as = [Some [CHR 0xA0]] \<or> as = [Some [CHR 0x85, CHR 0x09]]"
    for as
    using that
      apa_total_iff_tokens [of "example_record ''Example Paper'' as ''https://example.com/paper''"]
    by (auto simp add: titled listed str_split_def is_space_def)
  show ?thesis using cher blank by simp
qed

section \<open>Properties of the patterns\<close>

lemma map_groups_id: "map (\<lambda>(g2, rest). ([] @ g2, rest)) xs = xs"
  by (induction xs) auto

lemma rmatch_Lit_Seq:
  "rmatch (Seq (Lit c) r) s = (case s of [] \<Rightarrow> [] | x # xs \<Rightarrow> if x = c then rmatch r xs else [])"
  using map_groups_id by (cases s) auto

lemma rmatch_Eps_Seq: "rmatch (Seq Eps r) s = rmatch r s"
  using map_groups_id by simp

lemma seq_after_rep:
  "concat (map (\<lambda>(g1, mid). map (\<lambda>(g2, rest). (g1 @ g2, rest)) (rmatch r mid))
               (map (\<lambda>j. ([], drop j s)) js)) =
   concat (map (\<lambda>j. rmatch r (drop j s)) js)"
  by (induction js) (simp_all add: map_groups_id)

lemma rmatch_Rep_Seq:
  assumes "\<And>x xs. x \<in> set cs \<Longrightarrow> rmatch r (x # xs) = []"
  shows "rmatch (Seq (Rep n cs) r) s =
           (if n \<le> length (takeWhile (\<lambda>x. x \<in> set cs) s)
            then rmatch r (dropWhile (\<lambda>x. x \<in> set cs) s) else [])"
proof -
  let ?P = "\<lambda>x. x \<in> set cs"
  let ?k = "length (takeWhile ?P s)"
  have unfold: "rmatch (Seq (Rep n cs) r) s =
                  concat (map (\<lambda>j. rmatch r (drop j s)) (rev [n ..< Suc ?k]))"
    by (simp only: rmatch.simps seq_after_rep)
  show ?thesis
  proof (cases "n \<le> ?k")
    case False
    then show ?thesis by (simp add: unfold)
  next
    case True
    have shorter: "rmatch r (drop j s) = []" if "j \<in> set (rev [n ..< ?k])" for j
    proof -
      from that have j: "j < ?k" by simp
      have "?k \<le> length s" by (rule length_takeWhile_le)
      with j have "drop j s = s ! j # drop (Suc j) s"
        by (simp add: Cons_nth_drop_Suc)
      moreover have "?P (s ! j)"
        using j by (metis nth_mem set_takeWhileD takeWhile_nth)
      ultimately show ?thesis using assms by simp
    qed
    have "concat (map (\<lambda>j. rmatch r (drop j s)) (rev [n ..< Suc ?k])) =
            rmatch r (drop ?k s) @ concat (map (\<lambda>j. rmatch r (drop j s)) (rev [n ..< ?k]))"
      using True by simp
    with unfold have "rmatch (Seq (Rep n cs) r) s =
                 rmatch r (drop ?k s) @ concat (map (\<lambda>j. rmatch r (drop j s)) (rev [n ..< ?k]))"
      by (simp only:)
    also have "concat (map (\<lambda>j. rmatch r (drop j s)) (rev [n ..< ?k])) = []"
      using shorter by simp
    finally show ?thesis
      using True by (simp add: dropWhile_eq_drop)
  qed
qed


text \<open>The DOI pattern, position by position.\<close>

lemma rmatch_doi_tail:
  "rmatch (Seq (Rep 4 digits) (Seq (Lit (CHR ''/'')) r)) t =
     (if 4 \<le> length (takeWhile (\<lambda>x. x \<in> set digits) t)
      then rmatch (Seq (Lit (CHR ''/'')) r) (dropWhile (\<lambda>x. x \<in> set digits) t)
      else [])"
proof (rule rmatch_Rep_Seq)
  fix x xs
  assume "x \<in> set digits"
  then have "x \<noteq> CHR ''/''" by (auto simp: digits_def)
  then show "rmatch (Seq (Lit (CHR ''/'')) r) (x # xs) = []"
    by (simp add: rmatch_Lit_Seq del: rmatch.simps)
qed

lemma doi_pattern_unfold:
  "doi_pattern =
     Seq (Lit (CHR ''1'')) (Seq (Lit (CHR ''0'')) (Seq (Lit (CHR ''.''))
       (Seq (Rep 4 digits) (Seq (Lit (CHR ''/'')) (Rep 1 doi_chars)))))"
  by (simp add: doi_pattern_def)

lemma rmatch_doi_skip: "c \<noteq> CHR ''1'' \<Longrightarrow> rmatch doi_pattern (c # s) = []"
  by (simp only: doi_pattern_unfold rmatch_Lit_Seq) simp

lemma rmatch_doi_Nil: "rmatch doi_pattern [] = []"
  by (simp only: doi_pattern_unfold rmatch_Lit_Seq) simp

lemma rmatch_doi_10:
  "rmatch doi_pattern (CHR ''1'' # CHR ''0'' # CHR ''.'' # t) =
     (if 4 \<le> length (takeWhile (\<lambda>x. x \<in> set digits) t)
      then (case dropWhile (\<lambda>x. x \<in> set digits) t of
              [] \<Rightarrow> []
            | x # v \<Rightarrow> if x = CHR ''/'' then rmatch (Rep 1 doi_chars) v
                       else [])
      else [])"
  by (simp only: doi_pattern_unfold rmatch_Lit_Seq rmatch_doi_tail) simp

lemma rmatch_doi_shape:
  assumes "rmatch doi_pattern s \<noteq> []"
  shows "\<exists>t. s = CHR ''1'' # CHR ''0'' # CHR ''.'' # t"
proof -
  have "\<exists>t. s = CHR ''1'' # CHR ''0'' # CHR ''.'' # t"
    if "rmatch (Seq (Lit (CHR ''1'')) (Seq (Lit (CHR ''0'')) (Seq (Lit (CHR ''.'')) r))) s \<noteq> []"
    for r
    using that
    by (simp only: rmatch_Lit_Seq) (auto split: list.splits if_splits)
  then show ?thesis using assms by (simp only: doi_pattern_unfold)
qed

text \<open>A greedy repetition that can reach the end of the text does so first.\<close>

lemma rmatch_Rep_end:
  assumes "[] \<in> snd ` set (rmatch (Rep n cs) v)"
  shows "\<exists>others. rmatch (Rep n cs) v = ([], []) # others"
    and "n \<le> length v" and "\<forall>x \<in> set v. x \<in> set cs"
proof -
  let ?m = "length (takeWhile (\<lambda>x. x \<in> set cs) v)"
  from assms obtain j where j: "n \<le> j" "j \<le> ?m" "drop j v = []"
    by auto
  have le: "?m \<le> length v" by (rule length_takeWhile_le)
  with j have m: "?m = length v" "n \<le> ?m" by auto
  then have "rev [n ..< Suc ?m] = ?m # rev [n ..< ?m]" by simp
  then have "rmatch (Rep n cs) v = ([], drop ?m v) # map (\<lambda>j. ([], drop j v)) (rev [n ..< ?m])"
    by (simp del: upt_Suc)
  with m show "\<exists>others. rmatch (Rep n cs) v = ([], []) # others" by simp
  from m show "n \<le> length v" by simp
  from m(1) have "takeWhile (\<lambda>x. x \<in> set cs) v = v"
    by (metis takeWhile_eq_take take_all order_refl)
  then show "\<forall>x \<in> set v. x \<in> set cs"
    by (metis set_takeWhileD)
qed

lemma rmatch_Rep_all:
  assumes "n \<le> length v" "\<forall>x \<in> set v. x \<in> set cs"
  shows "[] \<in> snd ` set (rmatch (Rep n cs) v)"
proof -
  have "takeWhile (\<lambda>x. x \<in> set cs) v = v"
    using assms(2) by (simp add: takeWhile_eq_all_conv)
  then have "length (takeWhile (\<lambda>x. x \<in> set cs) v) = length v"
    by (rule arg_cong)
  then have "length v \<in> set (rev [n ..< Suc (length (takeWhile (\<lambda>x. x \<in> set cs) v))])"
    using assms(1) by simp
  then have "([], drop (length v) v) \<in> set (rmatch (Rep n cs) v)"
    by (simp only: rmatch.simps set_map) (rule imageI)
  then show ?thesis by force
qed


text \<open>
  The texts that the DOI pattern matches as a whole, and what the matcher reports on
  them.
\<close>

lemma doi_fullmatch_first:
  assumes "re_fullmatch doi_pattern d"
  shows "re_match doi_pattern d = Some (d, [])"
    and "\<exists>ds cs. d = ''10.'' @ ds @ ''/'' @ cs \<and> 4 \<le> length ds
                 \<and> (\<forall>x \<in> set ds. x \<in> set digits) \<and> cs \<noteq> []
                 \<and> (\<forall>x \<in> set cs. x \<in> set doi_chars)"
proof -
  let ?isd = "\<lambda>x. x \<in> set digits"
  let ?cls = "doi_chars"
  from assms have full: "[] \<in> snd ` set (rmatch doi_pattern d)"
    by (simp add: re_fullmatch_def)
  then have "rmatch doi_pattern d \<noteq> []" by auto
  then obtain t where d: "d = CHR ''1'' # CHR ''0'' # CHR ''.'' # t"
    using rmatch_doi_shape by blast
  from full d have ne: "rmatch doi_pattern (CHR ''1'' # CHR ''0'' # CHR ''.'' # t) \<noteq> []"
    by auto
  then have k: "4 \<le> length (takeWhile ?isd t)"
    by (simp add: rmatch_doi_10 del: rmatch.simps split: if_splits)
  from ne k have "(case dropWhile ?isd t of
                     [] \<Rightarrow> []
                   | x # v \<Rightarrow> if x = CHR ''/'' then rmatch (Rep 1 ?cls) v else []) \<noteq> []"
    by (simp add: rmatch_doi_10 del: rmatch.simps)
  then obtain v where v: "dropWhile ?isd t = CHR ''/'' # v"
    by (auto split: list.splits if_splits)
  with k have eq: "rmatch doi_pattern d = rmatch (Rep 1 ?cls) v"
    unfolding d by (simp add: rmatch_doi_10 del: rmatch.simps)
  with full have at_end: "[] \<in> snd ` set (rmatch (Rep 1 ?cls) v)" by simp
  then obtain others where "rmatch (Rep 1 ?cls) v = ([], []) # others"
    using rmatch_Rep_end(1) by blast
  with eq show "re_match doi_pattern d = Some (d, [])"
    by (simp add: re_match_def)
  have "t = takeWhile ?isd t @ CHR ''/'' # v"
    using v takeWhile_dropWhile_id [of ?isd t] by simp
  then have shape: "d = ''10.'' @ takeWhile ?isd t @ ''/'' @ v"
    using d by simp
  have all_digits: "\<forall>x \<in> set (takeWhile ?isd t). x \<in> set digits"
    by (auto dest: set_takeWhileD)
  have rest: "v \<noteq> []" "\<forall>x \<in> set v. x \<in> set ?cls"
    using rmatch_Rep_end(2,3) [OF at_end] by fastforce+
  show "\<exists>ds cs. d = ''10.'' @ ds @ ''/'' @ cs \<and> 4 \<le> length ds
                 \<and> (\<forall>x \<in> set ds. x \<in> set digits) \<and> cs \<noteq> []
                 \<and> (\<forall>x \<in> set cs. x \<in> set ?cls)"
    using shape k all_digits rest by (intro exI conjI)
qed

lemma doi_shape_fullmatch:
  assumes "4 \<le> length ds" "\<forall>x \<in> set ds. x \<in> set digits" "cs \<noteq> []"
    and "\<forall>x \<in> set cs. x \<in> set doi_chars"
  shows "re_fullmatch doi_pattern (''10.'' @ ds @ ''/'' @ cs)"
proof -
  let ?isd = "\<lambda>x. x \<in> set digits"
  let ?t = "ds @ CHR ''/'' # cs"
  have slash: "\<not> ?isd (CHR ''/'')" by (simp add: digits_def)
  have tw: "takeWhile ?isd ?t = ds"
    using assms(2) slash by (simp add: takeWhile_append2)
  have dw: "dropWhile ?isd ?t = CHR ''/'' # cs"
    using assms(2) slash by (simp add: dropWhile_append2)
  have "rmatch doi_pattern (CHR ''1'' # CHR ''0'' # CHR ''.'' # ?t) =
          rmatch (Rep 1 doi_chars) cs"
    using assms(1) by (simp add: rmatch_doi_10 tw dw del: rmatch.simps)
  moreover have "[] \<in> snd ` set (rmatch (Rep 1 doi_chars) cs)"
    using assms(3,4) by (intro rmatch_Rep_all) (cases cs, auto)
  ultimately show ?thesis by (simp add: re_fullmatch_def)
qed

lemma re_search_first: "re_match r s = Some m \<Longrightarrow> re_search r s = Some m"
  by (cases s) simp_all

lemma re_search_doi_skip:
  "CHR ''1'' \<notin> set p \<Longrightarrow> re_search doi_pattern (p @ s) = re_search doi_pattern s"
  by (induction p) (simp_all add: re_match_def rmatch_doi_skip [OF not_sym])

lemma doi_candidate_found:
  "re_search doi_pattern u = Some (d, gs) \<Longrightarrow> doi_candidate u = Some d"
  by (simp add: doi_candidate_def)

lemma doi_candidate_fullmatch:
  assumes "re_fullmatch doi_pattern d"
  shows "doi_candidate d = Some d" and "doi_candidate (''https://doi.org/'' @ d) = Some d"
proof -
  have found: "re_search doi_pattern d = Some (d, [])"
    using doi_fullmatch_first(1) [OF assms] by (rule re_search_first)
  then show "doi_candidate d = Some d" by (rule doi_candidate_found)
  have "re_search doi_pattern (''https://doi.org/'' @ d) = re_search doi_pattern d"
    by (rule re_search_doi_skip) simp
  with found show "doi_candidate (''https://doi.org/'' @ d) = Some d"
    using doi_candidate_found by simp
qed

section \<open>Properties of the pipeline\<close>

subsection \<open>Concrete evaluations\<close>

lemma doi_candidate_scenario1:
  "doi_candidate ''https://doi.org/10.1000/xyz123'' = Some ''10.1000/xyz123''"
  by code_simp

lemma doi_candidate_scenario2: "doi_candidate ''https://arxiv.org/abs/2301.12345'' = None"
  by code_simp

lemma arxiv_candidate_scenario1: "arxiv_candidate ''https://doi.org/10.1000/xyz123'' = None"
  by code_simp

lemma arxiv_candidate_scenario2:
  "arxiv_candidate ''https://arxiv.org/abs/2301.12345'' = Some ''2301.12345''"
  by code_simp

lemma strptime_scenario2: "strptime_ymd ''2023-05-10'' = Inr (2023, 5, 10)"
  by code_simp

lemma str_int_2023: "str_int 2023 = ''2023''"
  by code_simp

lemma month_name_5: "month_name 5 = ''May''"
  by code_simp

lemma str_strip_scenario2: "str_strip ''Deep Learning Survey'' = ''Deep Learning Survey''"
  by code_simp

text \<open>
  C4.  For the URL \<^verbatim>\<open>https://doi.org/10.1000/xyz123\<close>, when the registry answers the
  request for \<^verbatim>\<open>10.1000/xyz123\<close> with the message of the scenario, the pipeline in APA
  style shows exactly
  \<^verbatim>\<open>Doe, J. (2023, December). Example Paper. Journal of Examples, 5(2). https://doi.org/10.1000/xyz123\<close>.
\<close>

theorem scenario_doi_apa:
  assumes "get_json w ''https://api.crossref.org/works/10.1000/xyz123'' =
             Inr \<lparr>message = Some
                   \<lparr>msg_title = Some [''Example Paper''],
                    msg_author = Some [\<lparr>given = Some ''Jane'', family = Some ''Doe''\<rparr>],
                    published_print = Some \<lparr>date_parts = Some [[Some 2023]]\<rparr>,
                    container_title = Some [''Journal of Examples''],
                    msg_volume = Some ''5'', msg_issue = Some ''2'',
                    msg_publisher = Some ''Example Press''\<rparr>\<rparr>"
  shows "main w ''https://doi.org/10.1000/xyz123'' APA =
           Inr (Some ''Doe, J. (2023, December). Example Paper. Journal of Examples, 5(2). https://doi.org/10.1000/xyz123'')"
proof -
  let ?m = "\<lparr>title = Some ''Example Paper'', authors = Some [Some ''Jane Doe''],
             year = Some ''2023'', month = Some ''December'',
             journal = Some ''Journal of Examples'', volume = Some ''5'', issue = Some ''2'',
             doi = Some ''10.1000/xyz123'', url = Some ''https://doi.org/10.1000/xyz123'',
             publisher = Some ''Example Press''\<rparr>"
  have extracted: "extract_doi_metadata w ''10.1000/xyz123'' = Inr (Some ?m)"
    using assms
    by (simp add: extract_doi_metadata_def except_None_def bind_res_def first_item_def
        get_or_def doi_year_def str_int_2023)
  have found: "identify_url_type w ''https://doi.org/10.1000/xyz123'' = Inr (Some ?m)"
    by (simp add: identify_url_type_def doi_candidate_scenario1 extracted bind_res_def
        dict_truthy_def no_keys_def)
  have cited: "format_apa_citation (Some ?m) =
                 Inr ''Doe, J. (2023, December). Example Paper. Journal of Examples, 5(2). https://doi.org/10.1000/xyz123''"
    by (simp add: format_apa_citation_def no_keys_def truthy_def get_or_def item_def
        apa_author_text_def apa_author_def str_split_def is_space_def last_item_def
        first_char_def bind_res_def Let_def)
  show ?thesis
    by (simp add: main_def found cited bind_res_def dict_truthy_def no_keys_def)
qed

theorem scenario_doi_apa_witness:
  "main (offline\<lparr>get_json := (\<lambda>u. Inr \<lparr>message = Some example_work\<rparr>)\<rparr>)
        ''https://doi.org/10.1000/xyz123'' APA =
     Inr (Some ''Doe, J. (2023, December). Example Paper. Journal of Examples, 5(2). https://doi.org/10.1000/xyz123'')"
  using scenario_doi_apa [of "offline\<lparr>get_json := (\<lambda>u. Inr \<lparr>message = Some example_work\<rparr>)\<rparr>"]
  by (simp add: example_work_def)

text \<open>
  C5.  For the URL \<^verbatim>\<open>https://arxiv.org/abs/2301.12345\<close>, when the feed for
  \<^verbatim>\<open>2301.12345\<close> has an entry with the title "Deep Learning Survey", the one author
  "Alice Smith" and the published date "2023-05-10T00:00:00Z", the pipeline in MLA style
  shows exactly
  \<^verbatim>\<open>Alice Smith. "Deep Learning Survey". arXiv, Cornell University, May. 2023. https://arxiv.org/abs/2301.12345.\<close>
\<close>

theorem scenario_arxiv_mla:
  assumes "get_xml w ''http://export.arxiv.org/api/query?id_list=2301.12345'' = Inr root"
    and "xml_find ''entry'' root = Some entry"
    and "xml_find ''title'' entry = Some t" "xml_text t = Some ''Deep Learning Survey''"
    and "xml_findall ''author'' entry = [a]"
    and "xml_find ''name'' a = Some n" "xml_text n = Some ''Alice Smith''"
    and "xml_find ''published'' entry = Some p" "xml_text p = Some ''2023-05-10T00:00:00Z''"
  shows \<open>main w ''https://arxiv.org/abs/2301.12345'' MLA =
           Inr (Some ''Alice Smith. "Deep Learning Survey". arXiv, Cornell University, May. 2023. https://arxiv.org/abs/2301.12345.'')\<close>
proof -
  let ?m = "\<lparr>title = Some ''Deep Learning Survey'', authors = Some [Some ''Alice Smith''],
             year = Some ''2023'', month = Some ''May'', journal = Some ''arXiv'',
             volume = None, issue = None, doi = None,
             url = Some ''https://arxiv.org/abs/2301.12345'',
             publisher = Some ''Cornell University''\<rparr>"
  have extracted: "extract_arxiv_metadata w ''2301.12345'' = Inr (Some ?m)"
    using assms
    by (simp add: extract_arxiv_metadata_def except_None_def bind_res_def text_of_def
        strip_of_def slice_of_def str_strip_scenario2 strptime_scenario2 month_name_5)
  have found: "identify_url_type w ''https://arxiv.org/abs/2301.12345'' = Inr (Some ?m)"
    by (simp add: identify_url_type_def identify_after_doi_def doi_candidate_scenario2
        arxiv_candidate_scenario2 extracted bind_res_def dict_truthy_def no_keys_def)
  have cited: \<open>format_mla_citation (Some ?m) =
                 ''Alice Smith. "Deep Learning Survey". arXiv, Cornell University, May. 2023. https://arxiv.org/abs/2301.12345.''\<close>
    by (simp add: format_mla_citation_def no_keys_def truthy_def get_or_def item_def
        mla_author_text_def py_format_def Let_def)
  show ?thesis
    by (simp add: main_def found cited bind_res_def dict_truthy_def no_keys_def)
qed

theorem scenario_arxiv_mla_witness:
  \<open>main (offline\<lparr>get_xml := (\<lambda>u. Inr example_feed)\<rparr>) ''https://arxiv.org/abs/2301.12345'' MLA =
     Inr (Some ''Alice Smith. "Deep Learning Survey". arXiv, Cornell University, May. 2023. https://arxiv.org/abs/2301.12345.'')\<close>
  using scenario_arxiv_mla [of "offline\<lparr>get_xml := (\<lambda>u. Inr example_feed)\<rparr>" example_feed
      example_entry "Element (atom ''title'') (Some ''Deep Learning Survey'') []"
      "Element (atom ''author'') None [Element (atom ''name'') (Some ''Alice Smith'') []]"
      "Element (atom ''name'') (Some ''Alice Smith'') []"
      "Element (atom ''published'') (Some ''2023-05-10T00:00:00Z'') []"]
  by (simp add: example_feed_def example_entry_def xml_find_def xml_findall_def atom_def)

subsection \<open>The extractors never raise\<close>

lemma except_None_returns: "\<exists>r. except_None body = Inr r"
  by (cases body) (simp_all add: except_None_def)

lemma except_None_raised: "body = Inl e \<Longrightarrow> except_None body = Inr None"
  by (simp add: except_None_def)

lemma extract_doi_metadata_returns: "\<exists>r. extract_doi_metadata w d = Inr r"
  unfolding extract_doi_metadata_def by (rule except_None_returns)

lemma extract_arxiv_metadata_returns: "\<exists>r. extract_arxiv_metadata w a = Inr r"
  unfolding extract_arxiv_metadata_def by (rule except_None_returns)

lemma extract_general_metadata_returns: "\<exists>r. extract_general_metadata w u = Inr r"
  unfolding extract_general_metadata_def by (rule except_None_returns)

lemma identify_after_doi_returns: "\<exists>r. identify_after_doi w u = Inr r"
proof (cases "arxiv_candidate u")
  case None
  then show ?thesis
    using extract_general_metadata_returns by (simp add: identify_after_doi_def)
next
  case (Some a)
  obtain r where "extract_arxiv_metadata w a = Inr r"
    using extract_arxiv_metadata_returns by blast
  with Some show ?thesis
    using extract_general_metadata_returns
    by (simp add: identify_after_doi_def bind_res_def)
qed

lemma identify_url_type_returns: "\<exists>r. identify_url_type w u = Inr r"
proof (cases "doi_candidate u")
  case None
  then show ?thesis
    using identify_after_doi_returns by (simp add: identify_url_type_def)
next
  case (Some d)
  obtain r where "extract_doi_metadata w d = Inr r"
    using extract_doi_metadata_returns by blast
  with Some show ?thesis
    using identify_after_doi_returns
    by (simp add: identify_url_type_def bind_res_def)
qed

lemma doi_failure_falls_through:
  assumes "re_search doi_pattern u = Some (d, gs)" "re_search arxiv_pattern u = None"
    and "extract_doi_metadata w d = Inr None"
  shows "identify_url_type w u = extract_general_metadata w u"
  using assms
  by (simp add: identify_url_type_def doi_candidate_found identify_after_doi_def
      arxiv_candidate_def bind_res_def dict_truthy_def)

lemma first_item_default:
  "first_item (get_or v [[]]) =
     (case v of None \<Rightarrow> Inr [] | Some [] \<Rightarrow> Inl IndexError | Some (x # xs) \<Rightarrow> Inr x)"
  by (simp add: first_item_def get_or_def split: option.splits list.splits)

lemma names_raise_iff:
  "(\<exists>e. map_res (\<lambda>author. text_of (xml_find ''name'' author)) as = Inl e) \<longleftrightarrow>
   (\<exists>author \<in> set as. xml_find ''name'' author = None)"
  by (induction as) (auto simp: bind_res_def text_of_def split: option.splits sum.splits)

lemma doi_year_raises_iff:
  "(\<exists>e. doi_year data = Inl e) \<longleftrightarrow>
   (case date_parts (get_or (published_print data) \<lparr>date_parts = None\<rparr>) of
      None \<Rightarrow> False
    | Some parts \<Rightarrow> parts = [] \<or> hd parts = [])"
  by (auto simp: doi_year_def bind_res_def first_item_def split: option.splits list.splits)

lemma bind_res_raises_iff:
  "(\<exists>e. bind_res x f = Inl e) \<longleftrightarrow> (\<exists>e. x = Inl e) \<or> (\<exists>v e. x = Inr v \<and> f v = Inl e)"
  by (cases x) (simp_all add: bind_res_def)

lemma except_None_iff:
  "except_None body = Inr None \<longleftrightarrow> (\<exists>e. body = Inl e) \<or> body = Inr None"
  by (cases body) (simp_all add: except_None_def)

lemma extract_doi_None_iff:
  "extract_doi_metadata w d = Inr None \<longleftrightarrow>
     (case get_json w (''https://api.crossref.org/works/'' @ d) of
        Inl e \<Rightarrow> True
      | Inr response \<Rightarrow>
          (case message response of
             None \<Rightarrow> True
           | Some data \<Rightarrow>
               msg_title data = Some [] \<or> container_title data = Some []
               \<or> (case date_parts (get_or (published_print data) \<lparr>date_parts = None\<rparr>) of
                     None \<Rightarrow> False
                   | Some parts \<Rightarrow> parts = [] \<or> hd parts = [])))"
proof (cases "get_json w (''https://api.crossref.org/works/'' @ d)")
  case (Inl e)
  then show ?thesis
    by (simp add: extract_doi_metadata_def except_None_def bind_res_def)
next
  case (Inr response)
  show ?thesis
  proof (cases "message response")
    case None
    with Inr show ?thesis
      by (simp add: extract_doi_metadata_def except_None_def bind_res_def)
  next
    case (Some data)
    have year: "(\<exists>e. doi_year data = Inl e) \<or> (\<exists>y. doi_year data = Inr y)"
      by (cases "doi_year data") auto
    show ?thesis
      using Inr Some year doi_year_raises_iff [of data]
      by (auto simp: extract_doi_metadata_def except_None_def bind_res_def first_item_default
          split: option.splits list.splits)
  qed
qed


lemma names_cases:
  "(\<exists>e. map_res (\<lambda>author. text_of (xml_find ''name'' author)) as = Inl e)
   \<or> (\<exists>names. map_res (\<lambda>author. text_of (xml_find ''name'' author)) as = Inr names)"
  by (cases "map_res (\<lambda>author. text_of (xml_find ''name'' author)) as") auto

lemma strptime_cases:
  "(\<exists>e. strptime_ymd s = Inl e) \<or> (\<exists>y m d. strptime_ymd s = Inr (y, m, d))"
  by (cases "strptime_ymd s") auto

lemma extract_arxiv_None_iff:
  "extract_arxiv_metadata w a = Inr None \<longleftrightarrow>
     (case get_xml w (''http://export.arxiv.org/api/query?id_list='' @ a) of
        Inl e \<Rightarrow> True
      | Inr root \<Rightarrow>
          (case xml_find ''entry'' root of
             None \<Rightarrow> True
           | Some entry \<Rightarrow>
               (case xml_find ''title'' entry of
                  None \<Rightarrow> True
                | Some t \<Rightarrow> xml_text t = None)
               \<or> (\<exists>author \<in> set (xml_findall ''author'' entry).
                     xml_find ''name'' author = None)
               \<or> (case xml_find ''published'' entry of
                     None \<Rightarrow> True
                   | Some p \<Rightarrow>
                       (case xml_text p of
                          None \<Rightarrow> True
                        | Some s \<Rightarrow> \<exists>e. strptime_ymd (take 10 s) = Inl e))))"
proof (cases "get_xml w (''http://export.arxiv.org/api/query?id_list='' @ a)")
  case (Inl e)
  then show ?thesis
    by (simp add: extract_arxiv_metadata_def except_None_def bind_res_def)
next
  case (Inr root)
  show ?thesis
  proof (cases "xml_find ''entry'' root")
    case None
    with Inr show ?thesis
      by (simp add: extract_arxiv_metadata_def except_None_def bind_res_def)
  next
    case (Some entry)
    show ?thesis
    proof (cases "xml_find ''title'' entry")
      case None
      with Inr Some show ?thesis
        by (simp add: extract_arxiv_metadata_def except_None_def bind_res_def text_of_def)
    next
      case t_found: (Some t)
      show ?thesis
      proof (cases "xml_text t")
        case None
        with Inr Some t_found show ?thesis
          by (simp add: extract_arxiv_metadata_def except_None_def bind_res_def text_of_def
              strip_of_def)
      next
        case t_text: (Some title_text)
        let ?names = "map_res (\<lambda>author. text_of (xml_find ''name'' author))
                        (xml_findall ''author'' entry)"
        note unfold = extract_arxiv_metadata_def except_None_def bind_res_def text_of_def
          strip_of_def slice_of_def
        show ?thesis
        proof (cases ?names)
          case (Inl e)
          then have "\<exists>author \<in> set (xml_findall ''author'' entry).
                       xml_find ''name'' author = None"
            using names_raise_iff [of "xml_findall ''author'' entry"] by blast
          with Inl Inr Some t_found t_text show ?thesis
            by (simp add: unfold)
        next
          case names: (Inr names)
          then have named: "\<not> (\<exists>author \<in> set (xml_findall ''author'' entry).
                                xml_find ''name'' author = None)"
            using names_raise_iff [of "xml_findall ''author'' entry"] by simp
          show ?thesis
          proof (cases "xml_find ''published'' entry")
            case None
            with names Inr Some t_found t_text show ?thesis
              by (simp add: unfold)
          next
            case p_found: (Some p)
            show ?thesis
            proof (cases "xml_text p")
              case None
              with p_found names Inr Some t_found t_text show ?thesis
                by (simp add: unfold)
            next
              case p_text: (Some s)
              show ?thesis
              proof (cases "strptime_ymd (take 10 s)")
                case (Inl e)
                with p_text p_found names Inr Some t_found t_text show ?thesis
                  by (simp add: unfold)
              next
                case parsed: (Inr ymd)
                obtain y m d where "ymd = (y, m, d)" by (cases ymd) auto
                with parsed p_text p_found names named Inr Some t_found t_text show ?thesis
                  by (simp add: unfold)
              qed
            qed
          qed
        qed
      qed
    qed
  qed
qed

lemma extract_general_None_iff:
  "extract_general_metadata w u = Inr None \<longleftrightarrow> (\<exists>e. get_soup w u = Inl e)"
  by (cases "get_soup w u")
     (simp_all add: extract_general_metadata_def except_None_def bind_res_def Let_def)


text \<open>
  C3.  No extractor raises: each returns a record or the failure signal \<open>None\<close>, and so
  does the classifier.  The signal is returned on every failure inside the extractor and
  on nothing else.  The DOI extractor returns \<open>None\<close> exactly when the request fails or
  its answer does not parse, the answer has no \<^verbatim>\<open>message\<close>, the title list or the
  container title list is present and empty, or the print date has \<^verbatim>\<open>date-parts\<close>
  without a first row or with an empty one.  The arXiv extractor returns \<open>None\<close> exactly
  when the request or the parse fails, the feed has no entry, the entry has no title
  element or one without text, an author element has no name element, or the published
  element is missing, has no text or does not start with a date of the calendar.  The
  generic extractor returns \<open>None\<close> exactly when the request or the parse fails.  When
  the URL has a match of the DOI pattern and none of the arXiv pattern, and the DOI
  extractor fails on the DOI, the classifier's result is the generic extractor's on the
  same URL; in particular when the registry lookup fails.
\<close>

theorem extractors_absorb_failures:
  "(\<exists>r. extract_doi_metadata w d = Inr r)
   \<and> (\<exists>r. extract_arxiv_metadata w a = Inr r)
   \<and> (\<exists>r. extract_general_metadata w u = Inr r)
   \<and> (\<exists>r. identify_url_type w u = Inr r)
   \<and> (extract_doi_metadata w d = Inr None \<longleftrightarrow>
          (case get_json w (''https://api.crossref.org/works/'' @ d) of
             Inl e \<Rightarrow> True
           | Inr response \<Rightarrow>
               (case message response of
                  None \<Rightarrow> True
                | Some data \<Rightarrow>
                    msg_title data = Some [] \<or> container_title data = Some []
                    \<or> (case date_parts (get_or (published_print data) \<lparr>date_parts = None\<rparr>) of
                          None \<Rightarrow> False
                        | Some parts \<Rightarrow> parts = [] \<or> hd parts = []))))
   \<and> (extract_arxiv_metadata w a = Inr None \<longleftrightarrow>
          (case get_xml w (''http://export.arxiv.org/api/query?id_list='' @ a) of
             Inl e \<Rightarrow> True
           | Inr root \<Rightarrow>
               (case xml_find ''entry'' root of
                  None \<Rightarrow> True
                | Some entry \<Rightarrow>
                    (case xml_find ''title'' entry of
                       None \<Rightarrow> True
                     | Some t \<Rightarrow> xml_text t = None)
                    \<or> (\<exists>author \<in> set (xml_findall ''author'' entry).
                          xml_find ''name'' author = None)
                    \<or> (case xml_find ''published'' entry of
                          None \<Rightarrow> True
                        | Some p \<Rightarrow>
                            (case xml_text p of
                               None \<Rightarrow> True
                             | Some s \<Rightarrow> \<exists>e. strptime_ymd (take 10 s) = Inl e)))))
   \<and> (extract_general_metadata w u = Inr None \<longleftrightarrow> (\<exists>e. get_soup w u = Inl e))
   \<and> (\<forall>e. get_json w (''https://api.crossref.org/works/'' @ d) = Inl e \<longrightarrow>
          extract_doi_metadata w d = Inr None)
   \<and> (\<forall>e. get_xml w (''http://export.arxiv.org/api/query?id_list='' @ a) = Inl e \<longrightarrow>
          extract_arxiv_metadata w a = Inr None)
   \<and> (\<forall>e. get_soup w u = Inl e \<longrightarrow> extract_general_metadata w u = Inr None)
   \<and> (\<forall>g gs. re_search doi_pattern u = Some (g, gs) \<and> re_search arxiv_pattern u = None \<longrightarrow>
          (extract_doi_metadata w g = Inr None \<longrightarrow>
             identify_url_type w u = extract_general_metadata w u)
          \<and> (get_json w (''https://api.crossref.org/works/'' @ g) = Inl RequestException \<longrightarrow>
             identify_url_type w u = extract_general_metadata w u))"
proof (intro conjI allI impI)
  show "\<exists>r. extract_doi_metadata w d = Inr r" by (rule extract_doi_metadata_returns)
  show "\<exists>r. extract_arxiv_metadata w a = Inr r" by (rule extract_arxiv_metadata_returns)
  show "\<exists>r. extract_general_metadata w u = Inr r" by (rule extract_general_metadata_returns)
  show "\<exists>r. identify_url_type w u = Inr r" by (rule identify_url_type_returns)
next
  show "extract_doi_metadata w d = Inr None \<longleftrightarrow>
          (case get_json w (''https://api.crossref.org/works/'' @ d) of
             Inl e \<Rightarrow> True
           | Inr response \<Rightarrow>
               (case message response of
                  None \<Rightarrow> True
                | Some data \<Rightarrow>
                    msg_title data = Some [] \<or> container_title data = Some []
                    \<or> (case date_parts (get_or (published_print data) \<lparr>date_parts = None\<rparr>) of
                          None \<Rightarrow> False
                        | Some parts \<Rightarrow> parts = [] \<or> hd parts = [])))"
    by (rule extract_doi_None_iff)
next
  show "extract_arxiv_metadata w a = Inr None \<longleftrightarrow>
          (case get_xml w (''http://export.arxiv.org/api/query?id_list='' @ a) of
             Inl e \<Rightarrow> True
           | Inr root \<Rightarrow>
               (case xml_find ''entry'' root of
                  None \<Rightarrow> True
                | Some entry \<Rightarrow>
                    (case xml_find ''title'' entry of
                       None \<Rightarrow> True
                     | Some t \<Rightarrow> xml_text t = None)
                    \<or> (\<exists>author \<in> set (xml_findall ''author'' entry).
                          xml_find ''name'' author = None)
                    \<or> (case xml_find ''published'' entry of
                          None \<Rightarrow> True
                        | Some p \<Rightarrow>
                            (case xml_text p of
                               None \<Rightarrow> True
                             | Some s \<Rightarrow> \<exists>e. strptime_ymd (take 10 s) = Inl e))))"
    by (rule extract_arxiv_None_iff)
next
  show "extract_general_metadata w u = Inr None \<longleftrightarrow> (\<exists>e. get_soup w u = Inl e)"
    by (rule extract_general_None_iff)
next
  fix e assume "get_json w (''https://api.crossref.org/works/'' @ d) = Inl e"
  then show "extract_doi_metadata w d = Inr None"
    by (simp add: extract_doi_metadata_def except_None_def bind_res_def)
next
  fix e assume "get_xml w (''http://export.arxiv.org/api/query?id_list='' @ a) = Inl e"
  then show "extract_arxiv_metadata w a = Inr None"
    by (simp add: extract_arxiv_metadata_def except_None_def bind_res_def)
next
  fix e assume "get_soup w u = Inl e"
  then show "extract_general_metadata w u = Inr None"
    by (simp add: extract_general_metadata_def except_None_def bind_res_def)
next
  fix g gs
  assume "re_search doi_pattern u = Some (g, gs) \<and> re_search arxiv_pattern u = None"
    and "extract_doi_metadata w g = Inr None"
  then show "identify_url_type w u = extract_general_metadata w u"
    using doi_failure_falls_through by blast
next
  fix g gs
  assume m: "re_search doi_pattern u = Some (g, gs) \<and> re_search arxiv_pattern u = None"
    and "get_json w (''https://api.crossref.org/works/'' @ g) = Inl RequestException"
  then have "extract_doi_metadata w g = Inr None"
    by (simp add: extract_doi_metadata_def except_None_def bind_res_def)
  with m show "identify_url_type w u = extract_general_metadata w u"
    using doi_failure_falls_through by blast
qed

lemma re_search_scenario4:
  "re_search doi_pattern ''https://doi.org/10.1000/xyz123'' = Some (''10.1000/xyz123'', [])"
  "re_search arxiv_pattern ''https://doi.org/10.1000/xyz123'' = None"
  by code_simp+

lemma re_search_accented:
  "re_search doi_pattern (''https://doi.org/10.1000/caf'' @ [CHR 0xE9]) =
     Some (''10.1000/caf'' @ [CHR 0xE9], [])"
  "re_search arxiv_pattern (''https://doi.org/10.1000/caf'' @ [CHR 0xE9]) = None"
  by code_simp+

lemma strptime_no_such_day: "strptime_ymd ''2023-02-30'' = Inl ValueError"
  by code_simp

theorem extractors_absorb_failures_witness:
  "extract_doi_metadata (offline\<lparr>get_soup := (\<lambda>u. Inr example_page)\<rparr>) ''10.1000/xyz123'' = Inr None
   \<and> identify_url_type (offline\<lparr>get_soup := (\<lambda>u. Inr example_page)\<rparr>)
        ''https://doi.org/10.1000/xyz123'' =
     extract_general_metadata (offline\<lparr>get_soup := (\<lambda>u. Inr example_page)\<rparr>)
        ''https://doi.org/10.1000/xyz123''
   \<and> extract_general_metadata (offline\<lparr>get_soup := (\<lambda>u. Inr example_page)\<rparr>)
        ''https://doi.org/10.1000/xyz123'' \<noteq> Inr None
   \<and> identify_url_type (offline\<lparr>get_soup := (\<lambda>u. Inr example_page)\<rparr>)
        (''https://doi.org/10.1000/caf'' @ [CHR 0xE9]) =
     extract_general_metadata (offline\<lparr>get_soup := (\<lambda>u. Inr example_page)\<rparr>)
        (''https://doi.org/10.1000/caf'' @ [CHR 0xE9])
   \<and> extract_arxiv_metadata
        (offline\<lparr>get_xml := (\<lambda>u. Inr (entry_feed
           [Element (atom ''title'') (Some ''Deep Learning Survey'') [],
            Element (atom ''published'') (Some ''2023-05-10T00:00:00Z'') [],
            Element (atom ''author'') None []]))\<rparr>)
        ''2301.12345'' = Inr None
   \<and> extract_arxiv_metadata
        (offline\<lparr>get_xml := (\<lambda>u. Inr (entry_feed
           [Element (atom ''title'') (Some ''Deep Learning Survey'') [],
            Element (atom ''published'') (Some ''2023-02-30T00:00:00Z'') [],
            Element (atom ''author'') None [Element (atom ''name'') (Some ''Alice Smith'') []]]))\<rparr>)
        ''2301.12345'' = Inr None
   \<and> extract_doi_metadata
        (offline\<lparr>get_json := (\<lambda>u. Inr \<lparr>message = Some
           (example_work\<lparr>published_print := Some \<lparr>date_parts = Some []\<rparr>\<rparr>)\<rparr>)\<rparr>)
        ''10.1000/xyz123'' = Inr None"
proof -
  let ?page = "offline\<lparr>get_soup := (\<lambda>u. Inr example_page)\<rparr>"
  let ?nameless = "offline\<lparr>get_xml := (\<lambda>u. Inr (entry_feed
           [Element (atom ''title'') (Some ''Deep Learning Survey'') [],
            Element (atom ''published'') (Some ''2023-05-10T00:00:00Z'') [],
            Element (atom ''author'') None []]))\<rparr>"
  let ?undated = "offline\<lparr>get_xml := (\<lambda>u. Inr (entry_feed
           [Element (atom ''title'') (Some ''Deep Learning Survey'') [],
            Element (atom ''published'') (Some ''2023-02-30T00:00:00Z'') [],
            Element (atom ''author'') None [Element (atom ''name'') (Some ''Alice Smith'') []]]))\<rparr>"
  let ?rowless = "offline\<lparr>get_json := (\<lambda>u. Inr \<lparr>message = Some
           (example_work\<lparr>published_print := Some \<lparr>date_parts = Some []\<rparr>\<rparr>)\<rparr>)\<rparr>"
  have plain: "extract_doi_metadata ?page ''10.1000/xyz123'' = Inr None
      \<and> identify_url_type ?page ''https://doi.org/10.1000/xyz123'' =
        extract_general_metadata ?page ''https://doi.org/10.1000/xyz123''
      \<and> extract_general_metadata ?page ''https://doi.org/10.1000/xyz123'' \<noteq> Inr None"
    using extractors_absorb_failures [of ?page "''10.1000/xyz123''" "''2301.12345''"
        "''https://doi.org/10.1000/xyz123''"]
      re_search_scenario4
    by (simp add: offline_def)
  have accented: "identify_url_type ?page (''https://doi.org/10.1000/caf'' @ [CHR 0xE9]) =
        extract_general_metadata ?page (''https://doi.org/10.1000/caf'' @ [CHR 0xE9])"
    using extractors_absorb_failures [of ?page "''10.1000/xyz123''" "''2301.12345''"
        "''https://doi.org/10.1000/caf'' @ [CHR 0xE9]"]
      re_search_accented
    by (simp add: offline_def)
  have nameless: "extract_arxiv_metadata ?nameless ''2301.12345'' = Inr None"
    using extractors_absorb_failures [of ?nameless "''10.1000/xyz123''" "''2301.12345''"
        "''https://doi.org/10.1000/xyz123''"]
    by (simp add: offline_def entry_feed_def xml_find_def xml_findall_def atom_def)
  have undated: "extract_arxiv_metadata ?undated ''2301.12345'' = Inr None"
    using extractors_absorb_failures [of ?undated "''10.1000/xyz123''" "''2301.12345''"
        "''https://doi.org/10.1000/xyz123''"]
      strptime_no_such_day
    by (simp add: offline_def entry_feed_def xml_find_def xml_findall_def atom_def)
  have rowless: "extract_doi_metadata ?rowless ''10.1000/xyz123'' = Inr None"
    using extractors_absorb_failures [of ?rowless "''10.1000/xyz123''" "''2301.12345''"
        "''https://doi.org/10.1000/xyz123''"]
    by (simp add: offline_def example_work_def get_or_def)
  show ?thesis
    using plain accented nameless undated rowless by simp
qed

subsection \<open>The DOI extractor without a print date\<close>

lemma doi_year_absent: "published_print data = None \<Longrightarrow> doi_year data = Inr []"
  by (simp add: doi_year_def get_or_def)

text \<open>
  C9.  When the registry's message has no \<^verbatim>\<open>published-print\<close>, the year is computed
  without error as the empty text; every record the extractor returns has the year
  \<open>''''\<close>; and the extractor does return a record unless the title list or the
  container title list is present and empty, which has nothing to do with the date.
  Taking the print date out of a message on which the extractor returns a record gives
  the same record with the empty year.
\<close>

theorem doi_without_print_date:
  assumes "get_json w (''https://api.crossref.org/works/'' @ d) = Inr response"
    and "message response = Some data"
    and "published_print data = None"
  shows "doi_year data = Inr []
       \<and> (\<forall>m. extract_doi_metadata w d = Inr (Some m) \<longrightarrow> year m = Some [])
       \<and> (msg_title data \<noteq> Some [] \<and> container_title data \<noteq> Some [] \<longrightarrow>
            (\<exists>m. extract_doi_metadata w d = Inr (Some m) \<and> year m = Some []))
       \<and> (extract_doi_metadata w d = Inr None \<longleftrightarrow>
            msg_title data = Some [] \<or> container_title data = Some [])
       \<and> (\<forall>w' pp m'.
            get_json w' (''https://api.crossref.org/works/'' @ d) =
              Inr (response\<lparr>message := Some (data\<lparr>published_print := pp\<rparr>)\<rparr>)
            \<and> extract_doi_metadata w' d = Inr (Some m') \<longrightarrow>
            extract_doi_metadata w d = Inr (Some (m'\<lparr>year := Some []\<rparr>)))"
proof -
  have y: "doi_year data = Inr []"
    using assms(3) by (rule doi_year_absent)
  note unfold = extract_doi_metadata_def except_None_def bind_res_def first_item_default
  show ?thesis
  proof (intro conjI allI impI)
    show "doi_year data = Inr []" by (rule y)
  next
    fix m assume "extract_doi_metadata w d = Inr (Some m)"
    then show "year m = Some []"
      using assms(1,2) y
      by (auto simp: unfold split: option.splits list.splits)
  next
    assume "msg_title data \<noteq> Some [] \<and> container_title data \<noteq> Some []"
    then show "\<exists>m. extract_doi_metadata w d = Inr (Some m) \<and> year m = Some []"
      using assms(1,2) y
      by (auto simp: unfold split: option.splits list.splits)
  next
    show "extract_doi_metadata w d = Inr None \<longleftrightarrow>
            msg_title data = Some [] \<or> container_title data = Some []"
      using assms(1,2) y
      by (auto simp: unfold split: option.splits list.splits)
  next
    fix w' pp m'
    assume "get_json w' (''https://api.crossref.org/works/'' @ d) =
              Inr (response\<lparr>message := Some (data\<lparr>published_print := pp\<rparr>)\<rparr>)
            \<and> extract_doi_metadata w' d = Inr (Some m')"
    then show "extract_doi_metadata w d = Inr (Some (m'\<lparr>year := Some []\<rparr>))"
      using assms(1,2) y
      by (auto simp: unfold split: option.splits list.splits sum.splits)
  qed
qed

theorem doi_without_print_date_witness:
  "extract_doi_metadata
     (offline\<lparr>get_json := (\<lambda>u. Inr \<lparr>message = Some (example_work\<lparr>published_print := None\<rparr>)\<rparr>)\<rparr>)
     ''10.1000/xyz123'' =
   Inr (Some \<lparr>title = Some ''Example Paper'', authors = Some [Some ''Jane Doe''],
              year = Some [], month = Some ''December'',
              journal = Some ''Journal of Examples'', volume = Some ''5'', issue = Some ''2'',
              doi = Some ''10.1000/xyz123'', url = Some ''https://doi.org/10.1000/xyz123'',
              publisher = Some ''Example Press''\<rparr>)"
  using doi_without_print_date
    [of "offline\<lparr>get_json := (\<lambda>u. Inr \<lparr>message = Some (example_work\<lparr>published_print := None\<rparr>)\<rparr>)\<rparr>"
        "''10.1000/xyz123''" "\<lparr>message = Some (example_work\<lparr>published_print := None\<rparr>)\<rparr>"
        "example_work\<lparr>published_print := None\<rparr>"]
  by (simp add: example_work_def extract_doi_metadata_def except_None_def bind_res_def
      first_item_def get_or_def doi_year_def)


subsection \<open>Bare and prefixed DOIs\<close>

lemma extract_doi_record_truthy:
  "extract_doi_metadata w d = Inr (Some m) \<Longrightarrow> dict_truthy (Some m)"
  by (auto simp: extract_doi_metadata_def except_None_def bind_res_def dict_truthy_def
      no_keys_def split: sum.splits option.splits)

lemma fullmatch_scenario: "re_fullmatch doi_pattern ''10.1000/xyz123''"
  by code_simp

text \<open>
  C8.  A text \<open>d\<close> that the DOI pattern matches as a whole is \<^verbatim>\<open>10.\<close>, four or more
  digits, \<^verbatim>\<open>/\<close> and one or more characters of the class, and every text of that form
  is matched.  For such a \<open>d\<close> the classifier extracts the same DOI, \<open>d\<close> itself, from
  the URL \<open>d\<close> and from the URL \<^verbatim>\<open>https://doi.org/\<close> followed by \<open>d\<close>, and calls the DOI
  extractor with it; when the extractor returns a record, that record is the result for
  both URLs.
\<close>

theorem doi_candidate_bare_or_prefixed:
  assumes "re_fullmatch doi_pattern d"
  shows "(\<exists>ds cs. d = ''10.'' @ ds @ ''/'' @ cs \<and> 4 \<le> length ds
            \<and> (\<forall>x \<in> set ds. x \<in> set digits) \<and> cs \<noteq> []
            \<and> (\<forall>x \<in> set cs. x \<in> set doi_chars))
       \<and> (\<forall>ds cs. 4 \<le> length ds \<and> (\<forall>x \<in> set ds. x \<in> set digits) \<and> cs \<noteq> []
            \<and> (\<forall>x \<in> set cs. x \<in> set doi_chars) \<longrightarrow>
            re_fullmatch doi_pattern (''10.'' @ ds @ ''/'' @ cs))
       \<and> doi_candidate d = Some d
       \<and> doi_candidate (''https://doi.org/'' @ d) = Some d
       \<and> identify_url_type w d =
           bind_res (extract_doi_metadata w d) (\<lambda>metadata.
             if dict_truthy metadata then Inr metadata else identify_after_doi w d)
       \<and> identify_url_type w (''https://doi.org/'' @ d) =
           bind_res (extract_doi_metadata w d) (\<lambda>metadata.
             if dict_truthy metadata then Inr metadata
             else identify_after_doi w (''https://doi.org/'' @ d))
       \<and> (\<forall>m. extract_doi_metadata w d = Inr (Some m) \<longrightarrow>
            identify_url_type w d = Inr (Some m)
            \<and> identify_url_type w (''https://doi.org/'' @ d) = Inr (Some m))"
proof -
  note bare = doi_candidate_fullmatch(1) [OF assms]
  note prefixed = doi_candidate_fullmatch(2) [OF assms]
  have call_bare: "identify_url_type w d =
           bind_res (extract_doi_metadata w d) (\<lambda>metadata.
             if dict_truthy metadata then Inr metadata else identify_after_doi w d)"
    by (simp only: identify_url_type_def bare option.case)
  have call_prefixed: "identify_url_type w (''https://doi.org/'' @ d) =
           bind_res (extract_doi_metadata w d) (\<lambda>metadata.
             if dict_truthy metadata then Inr metadata
             else identify_after_doi w (''https://doi.org/'' @ d))"
    by (simp only: identify_url_type_def prefixed option.case)
  have same: "identify_url_type w d = Inr (Some m)
            \<and> identify_url_type w (''https://doi.org/'' @ d) = Inr (Some m)"
    if "extract_doi_metadata w d = Inr (Some m)" for m
    using that extract_doi_record_truthy [OF that]
    by (simp only: call_bare call_prefixed) (simp add: bind_res_def)
  show ?thesis
    using doi_fullmatch_first(2) [OF assms] doi_shape_fullmatch bare prefixed call_bare
      call_prefixed same
    by (intro conjI allI impI) blast+
qed

lemma fullmatch_accented: "re_fullmatch doi_pattern (''10.1000/caf'' @ [CHR 0xE9])"
  by code_simp

theorem doi_candidate_bare_or_prefixed_witness:
  "doi_candidate ''10.1000/xyz123'' = Some ''10.1000/xyz123''
   \<and> doi_candidate (''https://doi.org/'' @ ''10.1000/xyz123'') = Some ''10.1000/xyz123''
   \<and> doi_candidate (''10.1000/caf'' @ [CHR 0xE9]) = Some (''10.1000/caf'' @ [CHR 0xE9])
   \<and> doi_candidate (''https://doi.org/'' @ ''10.1000/caf'' @ [CHR 0xE9]) =
       Some (''10.1000/caf'' @ [CHR 0xE9])"
  using doi_candidate_bare_or_prefixed [OF fullmatch_scenario]
    doi_candidate_bare_or_prefixed [OF fullmatch_accented]
  by blast

end
